theory Spec2Isabelle
  imports Complex_Main
begin

section \<open>JavaScript numbers\<close>

text \<open>
  A JavaScript number is an IEEE 754 binary64 value. \<open>Fin m e\<close> is the finite value
  \<open>m * 2 ^ e\<close>; the operations below return it with an odd mantissa (zero as
  \<open>Fin 0 0\<close>), so that equal results are equal terms. The sign of zero is not
  represented: no operation of \<open>notePlayer.js\<close> tells \<open>-0\<close> from \<open>0\<close>.
\<close>

datatype number = Fin int int | NaN | PosInf | NegInf

fun value_of :: "number \<Rightarrow> real option" where
  "value_of (Fin m e) = Some (of_int m * 2 powi e)"
| "value_of _ = None"

function bitlength :: "int \<Rightarrow> int" where
  "bitlength n = (if n \<le> 0 then 0 else 1 + bitlength (n div 2))"
  by pat_completeness auto
termination
  by (relation "measure nat") auto

function normalise :: "int \<Rightarrow> int \<Rightarrow> number" where
  "normalise m e = (if m = 0 then Fin 0 0
                    else if even m then normalise (m div 2) (e + 1)
                    else Fin m e)"
  by pat_completeness auto
termination
  by (relation "measure (\<lambda>(m, e). nat \<bar>m\<bar>)") auto

text \<open>\<open>nearest_even m d\<close> is the integer nearest to \<open>m / d\<close>, a tie going to the even one.\<close>

definition nearest_even :: "int \<Rightarrow> int \<Rightarrow> int" where
  "nearest_even m d = (let f = m div d; r = m mod d
                       in if 2 * r < d then f
                          else if d < 2 * r then f + 1
                          else if even f then f else f + 1)"

text \<open>
  Rounding of the exact value \<open>m * 2 ^ e\<close> to binary64, round-to-nearest-even: the result
  is a multiple \<open>k * 2 ^ q\<close> of the unit in the last place, which is 52 binary places
  below the leading bit, and never below \<open>2 ^ -1074\<close> (subnormal numbers); a result of
  magnitude \<open>2 ^ 1024\<close> or more, which is one whose leading bit is at place 1024 or
  above, overflows to an infinity.
\<close>

definition round_double :: "int \<Rightarrow> int \<Rightarrow> number" where
  "round_double m e =
     (let q = max (e + bitlength \<bar>m\<bar> - 53) (- 1074);
          k = (if q \<le> e then m * 2 ^ nat (e - q) else nearest_even m (2 ^ nat (q - e)))
      in if 1024 < bitlength \<bar>k\<bar> + q
         then (if 0 < m then PosInf else NegInf)
         else normalise k q)"

fun js_neg :: "number \<Rightarrow> number" where
  "js_neg (Fin m e) = Fin (- m) e"
| "js_neg NaN = NaN"
| "js_neg PosInf = NegInf"
| "js_neg NegInf = PosInf"

fun js_abs :: "number \<Rightarrow> number" where
  "js_abs (Fin m e) = Fin \<bar>m\<bar> e"
| "js_abs NaN = NaN"
| "js_abs PosInf = PosInf"
| "js_abs NegInf = PosInf"

fun js_add :: "number \<Rightarrow> number \<Rightarrow> number" where
  "js_add (Fin a e) (Fin b f) =
     (let g = min e f in round_double (a * 2 ^ nat (e - g) + b * 2 ^ nat (f - g)) g)"
| "js_add NaN y = NaN"
| "js_add x NaN = NaN"
| "js_add PosInf NegInf = NaN"
| "js_add NegInf PosInf = NaN"
| "js_add (Fin a e) y = y"
| "js_add x y = x"

definition js_sub :: "number \<Rightarrow> number \<Rightarrow> number" where
  "js_sub x y = js_add x (js_neg y)"

fun js_mul :: "number \<Rightarrow> number \<Rightarrow> number" where
  "js_mul (Fin a e) (Fin b f) = round_double (a * b) (e + f)"
| "js_mul NaN y = NaN"
| "js_mul x NaN = NaN"
| "js_mul (Fin a e) y = (if a = 0 then NaN else if 0 < a then y else js_neg y)"
| "js_mul x (Fin b f) = (if b = 0 then NaN else if 0 < b then x else js_neg x)"
| "js_mul x y = (if x = y then PosInf else NegInf)"

text \<open>The comparisons \<open><\<close>, \<open>></\<close> and \<open>==\<close> (on numbers also \<open>===\<close>): false on \<open>NaN\<close>.\<close>

fun js_lt :: "number \<Rightarrow> number \<Rightarrow> bool" where
  "js_lt (Fin a e) (Fin b f) =
     (let g = min e f in a * 2 ^ nat (e - g) < b * 2 ^ nat (f - g))"
| "js_lt NaN y = False"
| "js_lt x NaN = False"
| "js_lt PosInf y = False"
| "js_lt x NegInf = False"
| "js_lt x y = True"

definition js_gt :: "number \<Rightarrow> number \<Rightarrow> bool" where
  "js_gt x y = js_lt y x"

fun js_eq :: "number \<Rightarrow> number \<Rightarrow> bool" where
  "js_eq (Fin a e) (Fin b f) =
     (let g = min e f in a * 2 ^ nat (e - g) = b * 2 ^ nat (f - g))"
| "js_eq PosInf PosInf = True"
| "js_eq NegInf NegInf = True"
| "js_eq x y = False"

text \<open>\<open>n % 1\<close>: the remainder has the sign of \<open>n\<close> and is exact; \<open>NaN\<close> when \<open>n\<close> is not finite.\<close>

fun js_rem_1 :: "number \<Rightarrow> number" where
  "js_rem_1 (Fin m e) =
     (if 0 \<le> e then Fin 0 0 else normalise (sgn m * (\<bar>m\<bar> mod 2 ^ nat (- e))) e)"
| "js_rem_1 x = NaN"

definition number_of_nat :: "nat \<Rightarrow> number" where
  "number_of_nat n = normalise (int n) 0"

section \<open>Strings\<close>

text \<open>
  Strings are lists of 8-bit characters; the code looks only at ASCII characters.
  \<open>last_char\<close> is \<open>s.slice(-1)\<close> and \<open>s.substr(-1, 1)\<close>: the last character as a
  string, the empty string when \<open>s\<close> is empty.
\<close>

definition last_char :: "string \<Rightarrow> string" where
  "last_char s = drop (length s - 1) s"

definition digits :: "(char \<times> nat) list" where
  "digits = [(CHR ''0'', 0), (CHR ''1'', 1), (CHR ''2'', 2), (CHR ''3'', 3), (CHR ''4'', 4),
             (CHR ''5'', 5), (CHR ''6'', 6), (CHR ''7'', 7), (CHR ''8'', 8), (CHR ''9'', 9)]"

text \<open>
  \<open>parseInt\<close> on the strings \<open>slice(-1)\<close> yields, of at most one character: the digit's
  value, and \<open>NaN\<close> (here \<open>None\<close>) for the empty string and for any other character.
\<close>

definition parseInt :: "string \<Rightarrow> nat option" where
  "parseInt s = (case s of [c] \<Rightarrow> map_of digits c | _ \<Rightarrow> None)"

text \<open>The decimal digits of a natural number, as string concatenation converts it.\<close>

function decimal :: "nat \<Rightarrow> string" where
  "decimal n = (if n < 10 then [''0123456789'' ! n]
                else decimal (n div 10) @ [''0123456789'' ! (n mod 10)])"
  by pat_completeness auto
termination
  by (relation "measure id") auto

definition to_string :: "nat option \<Rightarrow> string" where
  "to_string v = (case v of None \<Rightarrow> ''NaN'' | Some n \<Rightarrow> decimal n)"

section \<open>The note table\<close>

record noteInfo =
  keynb :: number
  freq :: number
  name :: string

definition DICT_KEYS :: "string list" where
  "DICT_KEYS = [''A'', ''A#'', ''B'', ''C'', ''C#'', ''D'', ''D#'', ''E'', ''F'', ''F#'', ''G'', ''G#'']"

definition DICT_OCTAVES :: "nat list" where
  "DICT_OCTAVES = [0, 1, 2, 3, 4, 5, 6, 7, 8]"

text \<open>The literal \<open>25.95654359874657\<close> denotes the binary64 value nearest to it.\<close>

definition FREQ_start :: number where
  "FREQ_start = Fin 3653058752473159 (- 47)"

text \<open>
  \<open>Math.pow(2, 1/12)\<close> is computed by the host: the binary64 value nearest to the
  twelfth root of two, \<open>1.0594630943592953\<close>.
\<close>

definition Math_pow_2_12th :: number where
  "Math_pow_2_12th = Fin 4771397596969315 (- 52)"

text \<open>
  The callbacks of the two nested \<open>map\<close>s update the globals \<open>KEYNB\<close> and \<open>FREQ\<close>:
  \<open>map_state\<close> is \<open>map\<close> with a callback that reads and writes a state, called on
  the elements from left to right.
\<close>

fun map_state :: "('a \<Rightarrow> 's \<Rightarrow> 'b \<times> 's) \<Rightarrow> 'a list \<Rightarrow> 's \<Rightarrow> 'b list \<times> 's" where
  "map_state f [] s = ([], s)"
| "map_state f (x # xs) s =
     (let (y, s') = f x s; (ys, s'') = map_state f xs s' in (y # ys, s''))"

definition note_step :: "nat \<Rightarrow> string \<Rightarrow> number \<times> number \<Rightarrow> noteInfo \<times> number \<times> number" where
  "note_step v v2 s =
     (let KEYNB = js_add (fst s) (Fin 1 0);
          FREQ = js_mul (snd s) Math_pow_2_12th
      in (\<lparr>keynb = KEYNB, freq = FREQ, name = v2 @ decimal v\<rparr>, (KEYNB, FREQ)))"

text \<open>
  lodash's \<open>dropRightWhile\<close>: elements are dropped from the end while the predicate,
  called with the element and its index, holds.
\<close>

function dropRightWhile :: "('a \<Rightarrow> nat \<Rightarrow> bool) \<Rightarrow> 'a list \<Rightarrow> 'a list" where
  "dropRightWhile P xs =
     (if xs \<noteq> [] \<and> P (last xs) (length xs - 1) then dropRightWhile P (butlast xs) else xs)"
  by pat_completeness auto
termination
  by (relation "measure (\<lambda>(P, xs). length xs)") auto

definition getNotesInfo :: "noteInfo list" where
  "getNotesInfo =
     dropRightWhile (\<lambda>e i. 88 \<le> i)
       (concat (fst (map_state (\<lambda>v. map_state (note_step v) DICT_KEYS) DICT_OCTAVES
                       (Fin 0 0, FREQ_start))))"

section \<open>The player\<close>

text \<open>
  An audio context is an object of the host with a \<open>destination\<close>. The host also gives
  the constructor's random duration, \<open>_.random(0.5, 3, true)\<close>, and what
  \<open>new (window.AudioContext || window.webkitAudioContext)()\<close> yields: a context, or
  \<open>None\<close> when it throws (no \<open>window\<close>, no Web Audio).
  An argument a caller may leave out is an option, \<open>None\<close> for \<open>undefined\<close>;
  \<open>null\<close> and arguments of another type than the documented one are not modelled.
\<close>

record 'n audioContext =
  destination :: 'n

record 'n host =
  random :: number
  newAudioContext :: "'n audioContext option"

text \<open>
  What a \<open>throw\<close> carries: the messages of the factories, with the value they append,
  the host's exception when no audio context can be made, and the \<open>TypeError\<close> of a
  property read on \<open>undefined\<close>.
\<close>

datatype thrown =
    NameNotProvided
  | InvalidOctave string
  | InvalidNoteName string
  | FrequencyNotProvided
  | InvalidFrequency number
  | KeyNumberNotProvided
  | InvalidKeyNumber number
  | NoAudioContext
  | TypeError

datatype factory = BuildFromName | BuildFromFrequency | BuildFromKeyNb

text \<open>
  The console: \<open>console.error(err)\<close> of the constructor, \<open>console.error("NOTEPLAYER
  ERROR: " + e)\<close> and \<open>console.warn("USAGE: ...")\<close> of a factory.
\<close>

datatype diag = ErrorRaw thrown | Error thrown | Usage factory

record 'n notePlayer =
  pianoKeyNb :: number
  frequency :: number
  octave :: string
  name :: string
  duration :: number
  volume :: number
  verbose :: bool
  attack :: number
  release :: number
  audioContext :: "'n audioContext option"
  destinationNode :: "'n option"

text \<open>
  \<open>new notePlayer(obj)\<close>, with \<open>obj\<close> a table entry and the audio context the factory
  attached to it. The constructor's \<open>return null\<close> in its \<open>catch\<close> has no effect under
  \<open>new\<close>: the object is returned as far as it was built, with \<open>audioContext\<close> and
  \<open>destinationNode\<close> left undefined. \<open>0.3\<close> and \<open>0.1\<close> are the binary64 values
  nearest to them.
\<close>

definition new_notePlayer ::
  "'n host \<Rightarrow> noteInfo \<Rightarrow> 'n audioContext option \<Rightarrow> diag list \<times> 'n notePlayer" where
  "new_notePlayer h obj ac =
     (let this = \<lparr>pianoKeyNb = keynb obj, frequency = freq obj,
                   octave = last_char (noteInfo.name obj), name = noteInfo.name obj,
                   duration = random h, volume = Fin 1 0, verbose = False,
                   attack = Fin 5404319552844595 (- 54), release = Fin 3602879701896397 (- 55),
                   audioContext = None, destinationNode = None\<rparr>
      in case (case ac of None \<Rightarrow> newAudioContext h | Some c \<Rightarrow> Some c) of
           None \<Rightarrow> ([ErrorRaw NoAudioContext], this)
         | Some c \<Rightarrow> ([], this\<lparr>audioContext := Some c, destinationNode := Some (destination c)\<rparr>))"

section \<open>The factories\<close>

definition DICT_TRANSLATIONS :: "(string \<times> string) list" where
  "DICT_TRANSLATIONS = [(''Cb'', ''B''), (''Db'', ''C#''), (''Eb'', ''D#''), (''Fb'', ''E''),
                        (''Gb'', ''F#''), (''Ab'', ''G#''), (''Bb'', ''A#'')]"

text \<open>
  Each factory is a \<open>try\<close> block, here the function \<open>_try\<close> with \<open>Inl\<close> for a
  \<open>throw\<close>, and a \<open>catch\<close> that writes to the console and returns \<open>null\<close>. A factory
  returns what it wrote to the console and the player, \<open>None\<close> for \<open>null\<close>.
\<close>

definition buildFromName_try ::
  "'n host \<Rightarrow> string option \<Rightarrow> 'n audioContext option \<Rightarrow> thrown + diag list \<times> 'n notePlayer" where
  "buildFromName_try h noteName ac =
     (case noteName of
        None \<Rightarrow> Inl NameNotProvided
      | Some s \<Rightarrow>
          let OCTAVE_INPUT = parseInt (last_char s)
          in if (case OCTAVE_INPUT of None \<Rightarrow> False | Some d \<Rightarrow> d < 1 \<or> 8 < d)
             then Inl (InvalidOctave s)
             else let NOTE_INPUT = take 2 s;
                      noteName' = (case map_of DICT_TRANSLATIONS NOTE_INPUT of
                                     Some t \<Rightarrow> t @ to_string OCTAVE_INPUT
                                   | None \<Rightarrow> s)
                  in case find (\<lambda>e. noteInfo.name e = noteName') getNotesInfo of
                       None \<Rightarrow> Inl (InvalidNoteName noteName')
                     | Some n \<Rightarrow> Inr (new_notePlayer h n ac))"

definition buildFromName ::
  "'n host \<Rightarrow> string option \<Rightarrow> 'n audioContext option \<Rightarrow> diag list \<times> 'n notePlayer option" where
  "buildFromName h noteName ac =
     (case buildFromName_try h noteName ac of
        Inl e \<Rightarrow> ([Error e, Usage BuildFromName], None)
      | Inr r \<Rightarrow> (fst r, Some (snd r)))"

text \<open>
  \<open>list.reduce\<close> without an initial value starts from the first entry; on an empty
  list reading \<open>list[0].freq\<close> is a \<open>TypeError\<close>.
\<close>

definition closer :: "number \<Rightarrow> noteInfo \<Rightarrow> noteInfo \<Rightarrow> noteInfo" where
  "closer noteFreq prev cur =
     (if js_lt (js_abs (js_sub (freq cur) noteFreq)) (js_abs (js_sub (freq prev) noteFreq))
      then cur else prev)"

definition buildFromFrequency_try ::
  "'n host \<Rightarrow> number option \<Rightarrow> 'n audioContext option
     \<Rightarrow> thrown + diag list \<times> 'n notePlayer option" where
  "buildFromFrequency_try h noteFreq ac =
     (case noteFreq of
        None \<Rightarrow> Inl FrequencyNotProvided
      | Some x \<Rightarrow>
          (case getNotesInfo of
             [] \<Rightarrow> Inl TypeError
           | first # rest \<Rightarrow>
               if js_lt x (freq first) \<or> js_gt x (freq (last (first # rest)))
               then Inl (InvalidFrequency x)
               else let closest = foldl (closer x) first rest
                    in Inr (buildFromName h (Some (noteInfo.name closest)) ac)))"

definition buildFromFrequency ::
  "'n host \<Rightarrow> number option \<Rightarrow> 'n audioContext option \<Rightarrow> diag list \<times> 'n notePlayer option" where
  "buildFromFrequency h noteFreq ac =
     (case buildFromFrequency_try h noteFreq ac of
        Inl e \<Rightarrow> ([Error e, Usage BuildFromFrequency], None)
      | Inr r \<Rightarrow> r)"

definition buildFromKeyNb_try ::
  "'n host \<Rightarrow> number option \<Rightarrow> 'n audioContext option \<Rightarrow> thrown + diag list \<times> 'n notePlayer" where
  "buildFromKeyNb_try h noteKeyNb ac =
     (case noteKeyNb of
        None \<Rightarrow> Inl KeyNumberNotProvided
      | Some k \<Rightarrow>
          (case find (\<lambda>e. js_eq (keynb e) k) getNotesInfo of
             None \<Rightarrow> Inl (InvalidKeyNumber k)
           | Some n \<Rightarrow> Inr (new_notePlayer h n ac)))"

definition buildFromKeyNb ::
  "'n host \<Rightarrow> number option \<Rightarrow> 'n audioContext option \<Rightarrow> diag list \<times> 'n notePlayer option" where
  "buildFromKeyNb h noteKeyNb ac =
     (case buildFromKeyNb_try h noteKeyNb ac of
        Inl e \<Rightarrow> ([Error e, Usage BuildFromKeyNb], None)
      | Inr r \<Rightarrow> (fst r, Some (snd r)))"

section \<open>The setters\<close>

text \<open>
  \<open>setDestinationNode\<close> reads \<open>this.audiocontext\<close>, a property no player has, when its
  argument is undefined: the read of \<open>destination\<close> on \<open>undefined\<close> throws, before
  anything is assigned. The setter returns what it threw, \<open>None\<close> when it returned
  normally, and the player as the call leaves it.

  \<open>setVerbose\<close> compares its argument with \<open>===\<close>, so that its argument is any
  value of the language: \<open>undefined\<close>, \<open>null\<close>, a boolean, a number, a string, or an
  object.
\<close>

datatype jsval =
    JsUndefined
  | JsNull
  | JsBoolean bool
  | JsNumber number
  | JsString string
  | JsObject

definition setAudioContext :: "'n audioContext option \<Rightarrow> 'n notePlayer \<Rightarrow> 'n notePlayer" where
  "setAudioContext ac this =
     this\<lparr>audioContext := (case ac of None \<Rightarrow> audioContext this | Some c \<Rightarrow> Some c)\<rparr>"

definition setDestinationNode ::
  "'n option \<Rightarrow> 'n notePlayer \<Rightarrow> thrown option \<times> 'n notePlayer" where
  "setDestinationNode dn this =
     (case dn of None \<Rightarrow> (Some TypeError, this)
               | Some d \<Rightarrow> (None, this\<lparr>destinationNode := Some d\<rparr>))"

definition setDuration :: "number option \<Rightarrow> 'n notePlayer \<Rightarrow> 'n notePlayer" where
  "setDuration d this = this\<lparr>duration := (case d of None \<Rightarrow> duration this | Some x \<Rightarrow> x)\<rparr>"

definition setVolume :: "number option \<Rightarrow> 'n notePlayer \<Rightarrow> 'n notePlayer" where
  "setVolume v this = this\<lparr>volume := (case v of None \<Rightarrow> volume this | Some x \<Rightarrow> x)\<rparr>"

definition setVerbose :: "jsval \<Rightarrow> 'n notePlayer \<Rightarrow> 'n notePlayer" where
  "setVerbose v this =
     this\<lparr>verbose := (if v = JsUndefined \<or> v = JsBoolean True then True else False)\<rparr>"

definition setAttack :: "number option \<Rightarrow> 'n notePlayer \<Rightarrow> 'n notePlayer" where
  "setAttack n this =
     this\<lparr>attack := (case n of None \<Rightarrow> attack this
                      | Some x \<Rightarrow> if js_eq (js_rem_1 x) (Fin 0 0) then attack this else x)\<rparr>"

definition setRelease :: "number option \<Rightarrow> 'n notePlayer \<Rightarrow> 'n notePlayer" where
  "setRelease n this =
     this\<lparr>release := (case n of None \<Rightarrow> release this
                       | Some x \<Rightarrow> if js_eq (js_rem_1 x) (Fin 0 0) then release this else x)\<rparr>"

section \<open>Checks on lists of numbers\<close>

text \<open>
  \<open>semitone_ok x y\<close> compares two finite numbers with integer arithmetic: \<open>x\<close> is
  positive, \<open>y\<close> is greater, and \<open>y\<close> differs from \<open>x\<close> times the value of
  \<open>Math_pow_2_12th\<close> by at most that product divided by \<open>2 ^ 52\<close>.
\<close>

fun semitone_ok :: "number \<Rightarrow> number \<Rightarrow> bool" where
  "semitone_ok (Fin a e) (Fin b f) =
     (let g = min e f; A = a * 2 ^ nat (e - g); B = b * 2 ^ nat (f - g)
      in 0 < A \<and> A < B \<and>
         \<bar>B * 2 ^ 52 - A * 4771397596969315\<bar> * 2 ^ 52 \<le> A * 4771397596969315)"
| "semitone_ok x y = False"

fun semitones_ok :: "number list \<Rightarrow> bool" where
  "semitones_ok (x # y # zs) = (semitone_ok x y \<and> semitones_ok (y # zs))"
| "semitones_ok zs = True"

section \<open>A host for the examples\<close>

definition host0 :: "nat host" where
  "host0 = \<lparr>random = Fin 1 0, newAudioContext = Some \<lparr>destination = 0\<rparr>\<rparr>"

section \<open>Evaluation\<close>

declare bitlength.simps [simp del] normalise.simps [simp del] decimal.simps [simp del]
  dropRightWhile.simps [simp del]

lemma bitlength_numeral:
  "bitlength 0 = 0"
  "bitlength 1 = 1"
  "bitlength (numeral Num.One) = 1"
  "bitlength (numeral (Num.Bit0 n)) = 1 + bitlength (numeral n)"
  "bitlength (numeral (Num.Bit1 n)) = 1 + bitlength (numeral n)"
  "bitlength (- numeral n) = 0"
  by (subst bitlength.simps, simp)+

lemmas number_eval = round_double_def nearest_even_def Let_def bitlength_numeral normalise.simps
  js_sub_def js_gt_def

text \<open>
  The 108 products and the 108 increments that \<open>getNotesInfo\<close> computes, before it
  drops the last twenty entries.
\<close>

lemma FREQ_products:
  "js_mul (Fin 3653058752473159 (- 47)) Math_pow_2_12th = Fin 55 (- 1)"
  "js_mul (Fin 55 (- 1)) Math_pow_2_12th = Fin 4100419809895505 (- 47)"
  "js_mul (Fin 4100419809895505 (- 47)) Math_pow_2_12th = Fin 4344243459964045 (- 47)"
  "js_mul (Fin 4344243459964045 (- 47)) Math_pow_2_12th = Fin 4602565618743639 (- 47)"
  "js_mul (Fin 4602565618743639 (- 47)) Math_pow_2_12th = Fin 304765525776615 (- 43)"
  "js_mul (Fin 304765525776615 (- 43)) Math_pow_2_12th = Fin 2583102615946641 (- 46)"
  "js_mul (Fin 2583102615946641 (- 46)) Math_pow_2_12th = Fin 5473403781076837 (- 47)"
  "js_mul (Fin 5473403781076837 (- 47)) Math_pow_2_12th = Fin 5798869306577533 (- 47)"
  "js_mul (Fin 5798869306577533 (- 47)) Math_pow_2_12th = Fin 3071844009665887 (- 46)"
  "js_mul (Fin 3071844009665887 (- 46)) Math_pow_2_12th = Fin 6509010719739371 (- 47)"
  "js_mul (Fin 6509010719739371 (- 47)) Math_pow_2_12th = Fin 3448028319176449 (- 46)"
  "js_mul (Fin 3448028319176449 (- 46)) Math_pow_2_12th = Fin 7306117504946321 (- 47)"
  "js_mul (Fin 7306117504946321 (- 47)) Math_pow_2_12th = Fin 7740561859543043 (- 47)"
  "js_mul (Fin 7740561859543043 (- 47)) Math_pow_2_12th = Fin 8200839619791013 (- 47)"
  "js_mul (Fin 8200839619791013 (- 47)) Math_pow_2_12th = Fin 8688486919928093 (- 47)"
  "js_mul (Fin 8688486919928093 (- 47)) Math_pow_2_12th = Fin 575320702342955 (- 43)"
  "js_mul (Fin 575320702342955 (- 43)) Math_pow_2_12th = Fin 4876248412425841 (- 46)"
  "js_mul (Fin 4876248412425841 (- 46)) Math_pow_2_12th = Fin 5166205231893283 (- 46)"
  "js_mul (Fin 5166205231893283 (- 46)) Math_pow_2_12th = Fin 2736701890538419 (- 45)"
  "js_mul (Fin 2736701890538419 (- 45)) Math_pow_2_12th = Fin 2899434653288767 (- 45)"
  "js_mul (Fin 2899434653288767 (- 45)) Math_pow_2_12th = Fin 6143688019331775 (- 46)"
  "js_mul (Fin 6143688019331775 (- 46)) Math_pow_2_12th = Fin 1627252679934843 (- 44)"
  "js_mul (Fin 1627252679934843 (- 44)) Math_pow_2_12th = Fin 6896056638352899 (- 46)"
  "js_mul (Fin 6896056638352899 (- 46)) Math_pow_2_12th = Fin 3653058752473161 (- 45)"
  "js_mul (Fin 3653058752473161 (- 45)) Math_pow_2_12th = Fin 1935140464885761 (- 44)"
  "js_mul (Fin 1935140464885761 (- 44)) Math_pow_2_12th = Fin 4100419809895507 (- 45)"
  "js_mul (Fin 4100419809895507 (- 45)) Math_pow_2_12th = Fin 8688486919928095 (- 46)"
  "js_mul (Fin 8688486919928095 (- 46)) Math_pow_2_12th = Fin 4602565618743641 (- 45)"
  "js_mul (Fin 4602565618743641 (- 45)) Math_pow_2_12th = Fin 4876248412425843 (- 45)"
  "js_mul (Fin 4876248412425843 (- 45)) Math_pow_2_12th = Fin 5166205231893285 (- 45)"
  "js_mul (Fin 5166205231893285 (- 45)) Math_pow_2_12th = Fin 5473403781076841 (- 45)"
  "js_mul (Fin 5473403781076841 (- 45)) Math_pow_2_12th = Fin 5798869306577537 (- 45)"
  "js_mul (Fin 5798869306577537 (- 45)) Math_pow_2_12th = Fin 3071844009665889 (- 44)"
  "js_mul (Fin 3071844009665889 (- 44)) Math_pow_2_12th = Fin 406813169983711 (- 41)"
  "js_mul (Fin 406813169983711 (- 41)) Math_pow_2_12th = Fin 6896056638352903 (- 45)"
  "js_mul (Fin 6896056638352903 (- 45)) Math_pow_2_12th = Fin 3653058752473163 (- 44)"
  "js_mul (Fin 3653058752473163 (- 44)) Math_pow_2_12th = Fin 7740561859543049 (- 45)"
  "js_mul (Fin 7740561859543049 (- 45)) Math_pow_2_12th = Fin 2050209904947755 (- 43)"
  "js_mul (Fin 2050209904947755 (- 43)) Math_pow_2_12th = Fin 8688486919928101 (- 45)"
  "js_mul (Fin 8688486919928101 (- 45)) Math_pow_2_12th = Fin 1150641404685911 (- 42)"
  "js_mul (Fin 1150641404685911 (- 42)) Math_pow_2_12th = Fin 2438124206212923 (- 43)"
  "js_mul (Fin 2438124206212923 (- 43)) Math_pow_2_12th = Fin 645775653986661 (- 41)"
  "js_mul (Fin 645775653986661 (- 41)) Math_pow_2_12th = Fin 1368350945269211 (- 42)"
  "js_mul (Fin 1368350945269211 (- 42)) Math_pow_2_12th = Fin 1449717326644385 (- 42)"
  "js_mul (Fin 1449717326644385 (- 42)) Math_pow_2_12th = Fin 3071844009665891 (- 43)"
  "js_mul (Fin 3071844009665891 (- 43)) Math_pow_2_12th = Fin 1627252679934845 (- 42)"
  "js_mul (Fin 1627252679934845 (- 42)) Math_pow_2_12th = Fin 6896056638352907 (- 44)"
  "js_mul (Fin 6896056638352907 (- 44)) Math_pow_2_12th = Fin 7306117504946331 (- 44)"
  "js_mul (Fin 7306117504946331 (- 44)) Math_pow_2_12th = Fin 3870280929771527 (- 43)"
  "js_mul (Fin 3870280929771527 (- 43)) Math_pow_2_12th = Fin 8200839619791025 (- 44)"
  "js_mul (Fin 8200839619791025 (- 44)) Math_pow_2_12th = Fin 4344243459964053 (- 43)"
  "js_mul (Fin 4344243459964053 (- 43)) Math_pow_2_12th = Fin 4602565618743647 (- 43)"
  "js_mul (Fin 4602565618743647 (- 43)) Math_pow_2_12th = Fin 4876248412425849 (- 43)"
  "js_mul (Fin 4876248412425849 (- 43)) Math_pow_2_12th = Fin 5166205231893291 (- 43)"
  "js_mul (Fin 5166205231893291 (- 43)) Math_pow_2_12th = Fin 5473403781076847 (- 43)"
  "js_mul (Fin 5473403781076847 (- 43)) Math_pow_2_12th = Fin 5798869306577543 (- 43)"
  "js_mul (Fin 5798869306577543 (- 43)) Math_pow_2_12th = Fin 6143688019331785 (- 43)"
  "js_mul (Fin 6143688019331785 (- 43)) Math_pow_2_12th = Fin 6509010719739383 (- 43)"
  "js_mul (Fin 6509010719739383 (- 43)) Math_pow_2_12th = Fin 6896056638352911 (- 43)"
  "js_mul (Fin 6896056638352911 (- 43)) Math_pow_2_12th = Fin 7306117504946335 (- 43)"
  "js_mul (Fin 7306117504946335 (- 43)) Math_pow_2_12th = Fin 3870280929771529 (- 42)"
  "js_mul (Fin 3870280929771529 (- 42)) Math_pow_2_12th = Fin 8200839619791029 (- 43)"
  "js_mul (Fin 8200839619791029 (- 43)) Math_pow_2_12th = Fin 4344243459964055 (- 42)"
  "js_mul (Fin 4344243459964055 (- 42)) Math_pow_2_12th = Fin 4602565618743649 (- 42)"
  "js_mul (Fin 4602565618743649 (- 42)) Math_pow_2_12th = Fin 4876248412425851 (- 42)"
  "js_mul (Fin 4876248412425851 (- 42)) Math_pow_2_12th = Fin 5166205231893293 (- 42)"
  "js_mul (Fin 5166205231893293 (- 42)) Math_pow_2_12th = Fin 5473403781076849 (- 42)"
  "js_mul (Fin 5473403781076849 (- 42)) Math_pow_2_12th = Fin 5798869306577545 (- 42)"
  "js_mul (Fin 5798869306577545 (- 42)) Math_pow_2_12th = Fin 6143688019331787 (- 42)"
  "js_mul (Fin 6143688019331787 (- 42)) Math_pow_2_12th = Fin 6509010719739385 (- 42)"
  "js_mul (Fin 6509010719739385 (- 42)) Math_pow_2_12th = Fin 6896056638352913 (- 42)"
  "js_mul (Fin 6896056638352913 (- 42)) Math_pow_2_12th = Fin 7306117504946337 (- 42)"
  "js_mul (Fin 7306117504946337 (- 42)) Math_pow_2_12th = Fin 1935140464885765 (- 40)"
  "js_mul (Fin 1935140464885765 (- 40)) Math_pow_2_12th = Fin 8200839619791031 (- 42)"
  "js_mul (Fin 8200839619791031 (- 42)) Math_pow_2_12th = Fin 8688486919928113 (- 42)"
  "js_mul (Fin 8688486919928113 (- 42)) Math_pow_2_12th = Fin 4602565618743651 (- 41)"
  "js_mul (Fin 4602565618743651 (- 41)) Math_pow_2_12th = Fin 4876248412425853 (- 41)"
  "js_mul (Fin 4876248412425853 (- 41)) Math_pow_2_12th = Fin 5166205231893295 (- 41)"
  "js_mul (Fin 5166205231893295 (- 41)) Math_pow_2_12th = Fin 5473403781076851 (- 41)"
  "js_mul (Fin 5473403781076851 (- 41)) Math_pow_2_12th = Fin 1449717326644387 (- 39)"
  "js_mul (Fin 1449717326644387 (- 39)) Math_pow_2_12th = Fin 3071844009665895 (- 40)"
  "js_mul (Fin 3071844009665895 (- 40)) Math_pow_2_12th = Fin 1627252679934847 (- 39)"
  "js_mul (Fin 1627252679934847 (- 39)) Math_pow_2_12th = Fin 1724014159588229 (- 39)"
  "js_mul (Fin 1724014159588229 (- 39)) Math_pow_2_12th = Fin 1826529376236585 (- 39)"
  "js_mul (Fin 1826529376236585 (- 39)) Math_pow_2_12th = Fin 7740561859543063 (- 41)"
  "js_mul (Fin 7740561859543063 (- 41)) Math_pow_2_12th = Fin 8200839619791035 (- 41)"
  "js_mul (Fin 8200839619791035 (- 41)) Math_pow_2_12th = Fin 8688486919928117 (- 41)"
  "js_mul (Fin 8688486919928117 (- 41)) Math_pow_2_12th = Fin 4602565618743653 (- 40)"
  "js_mul (Fin 4602565618743653 (- 40)) Math_pow_2_12th = Fin 4876248412425855 (- 40)"
  "js_mul (Fin 4876248412425855 (- 40)) Math_pow_2_12th = Fin 2583102615946649 (- 39)"
  "js_mul (Fin 2583102615946649 (- 39)) Math_pow_2_12th = Fin 2736701890538427 (- 39)"
  "js_mul (Fin 2736701890538427 (- 39)) Math_pow_2_12th = Fin 5798869306577551 (- 40)"
  "js_mul (Fin 5798869306577551 (- 40)) Math_pow_2_12th = Fin 6143688019331793 (- 40)"
  "js_mul (Fin 6143688019331793 (- 40)) Math_pow_2_12th = Fin 12712911561991 (- 31)"
  "js_mul (Fin 12712911561991 (- 31)) Math_pow_2_12th = Fin 862007079794115 (- 37)"
  "js_mul (Fin 862007079794115 (- 37)) Math_pow_2_12th = Fin 913264688118293 (- 37)"
  "js_mul (Fin 913264688118293 (- 37)) Math_pow_2_12th = Fin 1935140464885767 (- 38)"
  "js_mul (Fin 1935140464885767 (- 38)) Math_pow_2_12th = Fin 128138119059235 (- 34)"
  "js_mul (Fin 128138119059235 (- 34)) Math_pow_2_12th = Fin 4344243459964061 (- 39)"
  "js_mul (Fin 4344243459964061 (- 39)) Math_pow_2_12th = Fin 4602565618743655 (- 39)"
  "js_mul (Fin 4602565618743655 (- 39)) Math_pow_2_12th = Fin 4876248412425857 (- 39)"
  "js_mul (Fin 4876248412425857 (- 39)) Math_pow_2_12th = Fin 1291551307973325 (- 37)"
  "js_mul (Fin 1291551307973325 (- 37)) Math_pow_2_12th = Fin 684175472634607 (- 36)"
  "js_mul (Fin 684175472634607 (- 36)) Math_pow_2_12th = Fin 5798869306577553 (- 39)"
  "js_mul (Fin 5798869306577553 (- 39)) Math_pow_2_12th = Fin 6143688019331795 (- 39)"
  "js_mul (Fin 6143688019331795 (- 39)) Math_pow_2_12th = Fin 3254505359869697 (- 38)"
  "js_mul (Fin 3254505359869697 (- 38)) Math_pow_2_12th = Fin 3448028319176461 (- 38)"
  "js_mul (Fin 3448028319176461 (- 38)) Math_pow_2_12th = Fin 7306117504946347 (- 39)"
  by (simp_all add: Math_pow_2_12th_def number_eval cong: let_weak_cong)

lemma KEYNB_increments:
  "js_add (Fin 0 0) (Fin 1 0) = Fin 1 0"
  "js_add (Fin 1 0) (Fin 1 0) = Fin 1 1"
  "js_add (Fin 1 1) (Fin 1 0) = Fin 3 0"
  "js_add (Fin 3 0) (Fin 1 0) = Fin 1 2"
  "js_add (Fin 1 2) (Fin 1 0) = Fin 5 0"
  "js_add (Fin 5 0) (Fin 1 0) = Fin 3 1"
  "js_add (Fin 3 1) (Fin 1 0) = Fin 7 0"
  "js_add (Fin 7 0) (Fin 1 0) = Fin 1 3"
  "js_add (Fin 1 3) (Fin 1 0) = Fin 9 0"
  "js_add (Fin 9 0) (Fin 1 0) = Fin 5 1"
  "js_add (Fin 5 1) (Fin 1 0) = Fin 11 0"
  "js_add (Fin 11 0) (Fin 1 0) = Fin 3 2"
  "js_add (Fin 3 2) (Fin 1 0) = Fin 13 0"
  "js_add (Fin 13 0) (Fin 1 0) = Fin 7 1"
  "js_add (Fin 7 1) (Fin 1 0) = Fin 15 0"
  "js_add (Fin 15 0) (Fin 1 0) = Fin 1 4"
  "js_add (Fin 1 4) (Fin 1 0) = Fin 17 0"
  "js_add (Fin 17 0) (Fin 1 0) = Fin 9 1"
  "js_add (Fin 9 1) (Fin 1 0) = Fin 19 0"
  "js_add (Fin 19 0) (Fin 1 0) = Fin 5 2"
  "js_add (Fin 5 2) (Fin 1 0) = Fin 21 0"
  "js_add (Fin 21 0) (Fin 1 0) = Fin 11 1"
  "js_add (Fin 11 1) (Fin 1 0) = Fin 23 0"
  "js_add (Fin 23 0) (Fin 1 0) = Fin 3 3"
  "js_add (Fin 3 3) (Fin 1 0) = Fin 25 0"
  "js_add (Fin 25 0) (Fin 1 0) = Fin 13 1"
  "js_add (Fin 13 1) (Fin 1 0) = Fin 27 0"
  "js_add (Fin 27 0) (Fin 1 0) = Fin 7 2"
  "js_add (Fin 7 2) (Fin 1 0) = Fin 29 0"
  "js_add (Fin 29 0) (Fin 1 0) = Fin 15 1"
  "js_add (Fin 15 1) (Fin 1 0) = Fin 31 0"
  "js_add (Fin 31 0) (Fin 1 0) = Fin 1 5"
  "js_add (Fin 1 5) (Fin 1 0) = Fin 33 0"
  "js_add (Fin 33 0) (Fin 1 0) = Fin 17 1"
  "js_add (Fin 17 1) (Fin 1 0) = Fin 35 0"
  "js_add (Fin 35 0) (Fin 1 0) = Fin 9 2"
  "js_add (Fin 9 2) (Fin 1 0) = Fin 37 0"
  "js_add (Fin 37 0) (Fin 1 0) = Fin 19 1"
  "js_add (Fin 19 1) (Fin 1 0) = Fin 39 0"
  "js_add (Fin 39 0) (Fin 1 0) = Fin 5 3"
  "js_add (Fin 5 3) (Fin 1 0) = Fin 41 0"
  "js_add (Fin 41 0) (Fin 1 0) = Fin 21 1"
  "js_add (Fin 21 1) (Fin 1 0) = Fin 43 0"
  "js_add (Fin 43 0) (Fin 1 0) = Fin 11 2"
  "js_add (Fin 11 2) (Fin 1 0) = Fin 45 0"
  "js_add (Fin 45 0) (Fin 1 0) = Fin 23 1"
  "js_add (Fin 23 1) (Fin 1 0) = Fin 47 0"
  "js_add (Fin 47 0) (Fin 1 0) = Fin 3 4"
  "js_add (Fin 3 4) (Fin 1 0) = Fin 49 0"
  "js_add (Fin 49 0) (Fin 1 0) = Fin 25 1"
  "js_add (Fin 25 1) (Fin 1 0) = Fin 51 0"
  "js_add (Fin 51 0) (Fin 1 0) = Fin 13 2"
  "js_add (Fin 13 2) (Fin 1 0) = Fin 53 0"
  "js_add (Fin 53 0) (Fin 1 0) = Fin 27 1"
  "js_add (Fin 27 1) (Fin 1 0) = Fin 55 0"
  "js_add (Fin 55 0) (Fin 1 0) = Fin 7 3"
  "js_add (Fin 7 3) (Fin 1 0) = Fin 57 0"
  "js_add (Fin 57 0) (Fin 1 0) = Fin 29 1"
  "js_add (Fin 29 1) (Fin 1 0) = Fin 59 0"
  "js_add (Fin 59 0) (Fin 1 0) = Fin 15 2"
  "js_add (Fin 15 2) (Fin 1 0) = Fin 61 0"
  "js_add (Fin 61 0) (Fin 1 0) = Fin 31 1"
  "js_add (Fin 31 1) (Fin 1 0) = Fin 63 0"
  "js_add (Fin 63 0) (Fin 1 0) = Fin 1 6"
  "js_add (Fin 1 6) (Fin 1 0) = Fin 65 0"
  "js_add (Fin 65 0) (Fin 1 0) = Fin 33 1"
  "js_add (Fin 33 1) (Fin 1 0) = Fin 67 0"
  "js_add (Fin 67 0) (Fin 1 0) = Fin 17 2"
  "js_add (Fin 17 2) (Fin 1 0) = Fin 69 0"
  "js_add (Fin 69 0) (Fin 1 0) = Fin 35 1"
  "js_add (Fin 35 1) (Fin 1 0) = Fin 71 0"
  "js_add (Fin 71 0) (Fin 1 0) = Fin 9 3"
  "js_add (Fin 9 3) (Fin 1 0) = Fin 73 0"
  "js_add (Fin 73 0) (Fin 1 0) = Fin 37 1"
  "js_add (Fin 37 1) (Fin 1 0) = Fin 75 0"
  "js_add (Fin 75 0) (Fin 1 0) = Fin 19 2"
  "js_add (Fin 19 2) (Fin 1 0) = Fin 77 0"
  "js_add (Fin 77 0) (Fin 1 0) = Fin 39 1"
  "js_add (Fin 39 1) (Fin 1 0) = Fin 79 0"
  "js_add (Fin 79 0) (Fin 1 0) = Fin 5 4"
  "js_add (Fin 5 4) (Fin 1 0) = Fin 81 0"
  "js_add (Fin 81 0) (Fin 1 0) = Fin 41 1"
  "js_add (Fin 41 1) (Fin 1 0) = Fin 83 0"
  "js_add (Fin 83 0) (Fin 1 0) = Fin 21 2"
  "js_add (Fin 21 2) (Fin 1 0) = Fin 85 0"
  "js_add (Fin 85 0) (Fin 1 0) = Fin 43 1"
  "js_add (Fin 43 1) (Fin 1 0) = Fin 87 0"
  "js_add (Fin 87 0) (Fin 1 0) = Fin 11 3"
  "js_add (Fin 11 3) (Fin 1 0) = Fin 89 0"
  "js_add (Fin 89 0) (Fin 1 0) = Fin 45 1"
  "js_add (Fin 45 1) (Fin 1 0) = Fin 91 0"
  "js_add (Fin 91 0) (Fin 1 0) = Fin 23 2"
  "js_add (Fin 23 2) (Fin 1 0) = Fin 93 0"
  "js_add (Fin 93 0) (Fin 1 0) = Fin 47 1"
  "js_add (Fin 47 1) (Fin 1 0) = Fin 95 0"
  "js_add (Fin 95 0) (Fin 1 0) = Fin 3 5"
  "js_add (Fin 3 5) (Fin 1 0) = Fin 97 0"
  "js_add (Fin 97 0) (Fin 1 0) = Fin 49 1"
  "js_add (Fin 49 1) (Fin 1 0) = Fin 99 0"
  "js_add (Fin 99 0) (Fin 1 0) = Fin 25 2"
  "js_add (Fin 25 2) (Fin 1 0) = Fin 101 0"
  "js_add (Fin 101 0) (Fin 1 0) = Fin 51 1"
  "js_add (Fin 51 1) (Fin 1 0) = Fin 103 0"
  "js_add (Fin 103 0) (Fin 1 0) = Fin 13 3"
  "js_add (Fin 13 3) (Fin 1 0) = Fin 105 0"
  "js_add (Fin 105 0) (Fin 1 0) = Fin 53 1"
  "js_add (Fin 53 1) (Fin 1 0) = Fin 107 0"
  "js_add (Fin 107 0) (Fin 1 0) = Fin 27 2"
  by (simp_all add: number_eval cong: let_weak_cong)

lemma dropRightWhile_from_index: "dropRightWhile (\<lambda>e i. n \<le> i) xs = take n xs"
proof (induction xs rule: rev_induct)
  case Nil
  show ?case by (simp add: dropRightWhile.simps)
next
  case (snoc x xs)
  show ?case
  proof (cases "n \<le> length xs")
    case True
    then show ?thesis using snoc by (subst dropRightWhile.simps) simp
  next
    case False
    then show ?thesis by (subst dropRightWhile.simps) simp
  qed
qed

lemma getNotesInfo_table:
  "getNotesInfo =
     [\<lparr>keynb = Fin 1 0, freq = Fin 55 (- 1), name = ''A0''\<rparr>,
      \<lparr>keynb = Fin 1 1, freq = Fin 4100419809895505 (- 47), name = ''A#0''\<rparr>,
      \<lparr>keynb = Fin 3 0, freq = Fin 4344243459964045 (- 47), name = ''B0''\<rparr>,
      \<lparr>keynb = Fin 1 2, freq = Fin 4602565618743639 (- 47), name = ''C0''\<rparr>,
      \<lparr>keynb = Fin 5 0, freq = Fin 304765525776615 (- 43), name = ''C#0''\<rparr>,
      \<lparr>keynb = Fin 3 1, freq = Fin 2583102615946641 (- 46), name = ''D0''\<rparr>,
      \<lparr>keynb = Fin 7 0, freq = Fin 5473403781076837 (- 47), name = ''D#0''\<rparr>,
      \<lparr>keynb = Fin 1 3, freq = Fin 5798869306577533 (- 47), name = ''E0''\<rparr>,
      \<lparr>keynb = Fin 9 0, freq = Fin 3071844009665887 (- 46), name = ''F0''\<rparr>,
      \<lparr>keynb = Fin 5 1, freq = Fin 6509010719739371 (- 47), name = ''F#0''\<rparr>,
      \<lparr>keynb = Fin 11 0, freq = Fin 3448028319176449 (- 46), name = ''G0''\<rparr>,
      \<lparr>keynb = Fin 3 2, freq = Fin 7306117504946321 (- 47), name = ''G#0''\<rparr>,
      \<lparr>keynb = Fin 13 0, freq = Fin 7740561859543043 (- 47), name = ''A1''\<rparr>,
      \<lparr>keynb = Fin 7 1, freq = Fin 8200839619791013 (- 47), name = ''A#1''\<rparr>,
      \<lparr>keynb = Fin 15 0, freq = Fin 8688486919928093 (- 47), name = ''B1''\<rparr>,
      \<lparr>keynb = Fin 1 4, freq = Fin 575320702342955 (- 43), name = ''C1''\<rparr>,
      \<lparr>keynb = Fin 17 0, freq = Fin 4876248412425841 (- 46), name = ''C#1''\<rparr>,
      \<lparr>keynb = Fin 9 1, freq = Fin 5166205231893283 (- 46), name = ''D1''\<rparr>,
      \<lparr>keynb = Fin 19 0, freq = Fin 2736701890538419 (- 45), name = ''D#1''\<rparr>,
      \<lparr>keynb = Fin 5 2, freq = Fin 2899434653288767 (- 45), name = ''E1''\<rparr>,
      \<lparr>keynb = Fin 21 0, freq = Fin 6143688019331775 (- 46), name = ''F1''\<rparr>,
      \<lparr>keynb = Fin 11 1, freq = Fin 1627252679934843 (- 44), name = ''F#1''\<rparr>,
      \<lparr>keynb = Fin 23 0, freq = Fin 6896056638352899 (- 46), name = ''G1''\<rparr>,
      \<lparr>keynb = Fin 3 3, freq = Fin 3653058752473161 (- 45), name = ''G#1''\<rparr>,
      \<lparr>keynb = Fin 25 0, freq = Fin 1935140464885761 (- 44), name = ''A2''\<rparr>,
      \<lparr>keynb = Fin 13 1, freq = Fin 4100419809895507 (- 45), name = ''A#2''\<rparr>,
      \<lparr>keynb = Fin 27 0, freq = Fin 8688486919928095 (- 46), name = ''B2''\<rparr>,
      \<lparr>keynb = Fin 7 2, freq = Fin 4602565618743641 (- 45), name = ''C2''\<rparr>,
      \<lparr>keynb = Fin 29 0, freq = Fin 4876248412425843 (- 45), name = ''C#2''\<rparr>,
      \<lparr>keynb = Fin 15 1, freq = Fin 5166205231893285 (- 45), name = ''D2''\<rparr>,
      \<lparr>keynb = Fin 31 0, freq = Fin 5473403781076841 (- 45), name = ''D#2''\<rparr>,
      \<lparr>keynb = Fin 1 5, freq = Fin 5798869306577537 (- 45), name = ''E2''\<rparr>,
      \<lparr>keynb = Fin 33 0, freq = Fin 3071844009665889 (- 44), name = ''F2''\<rparr>,
      \<lparr>keynb = Fin 17 1, freq = Fin 406813169983711 (- 41), name = ''F#2''\<rparr>,
      \<lparr>keynb = Fin 35 0, freq = Fin 6896056638352903 (- 45), name = ''G2''\<rparr>,
      \<lparr>keynb = Fin 9 2, freq = Fin 3653058752473163 (- 44), name = ''G#2''\<rparr>,
      \<lparr>keynb = Fin 37 0, freq = Fin 7740561859543049 (- 45), name = ''A3''\<rparr>,
      \<lparr>keynb = Fin 19 1, freq = Fin 2050209904947755 (- 43), name = ''A#3''\<rparr>,
      \<lparr>keynb = Fin 39 0, freq = Fin 8688486919928101 (- 45), name = ''B3''\<rparr>,
      \<lparr>keynb = Fin 5 3, freq = Fin 1150641404685911 (- 42), name = ''C3''\<rparr>,
      \<lparr>keynb = Fin 41 0, freq = Fin 2438124206212923 (- 43), name = ''C#3''\<rparr>,
      \<lparr>keynb = Fin 21 1, freq = Fin 645775653986661 (- 41), name = ''D3''\<rparr>,
      \<lparr>keynb = Fin 43 0, freq = Fin 1368350945269211 (- 42), name = ''D#3''\<rparr>,
      \<lparr>keynb = Fin 11 2, freq = Fin 1449717326644385 (- 42), name = ''E3''\<rparr>,
      \<lparr>keynb = Fin 45 0, freq = Fin 3071844009665891 (- 43), name = ''F3''\<rparr>,
      \<lparr>keynb = Fin 23 1, freq = Fin 1627252679934845 (- 42), name = ''F#3''\<rparr>,
      \<lparr>keynb = Fin 47 0, freq = Fin 6896056638352907 (- 44), name = ''G3''\<rparr>,
      \<lparr>keynb = Fin 3 4, freq = Fin 7306117504946331 (- 44), name = ''G#3''\<rparr>,
      \<lparr>keynb = Fin 49 0, freq = Fin 3870280929771527 (- 43), name = ''A4''\<rparr>,
      \<lparr>keynb = Fin 25 1, freq = Fin 8200839619791025 (- 44), name = ''A#4''\<rparr>,
      \<lparr>keynb = Fin 51 0, freq = Fin 4344243459964053 (- 43), name = ''B4''\<rparr>,
      \<lparr>keynb = Fin 13 2, freq = Fin 4602565618743647 (- 43), name = ''C4''\<rparr>,
      \<lparr>keynb = Fin 53 0, freq = Fin 4876248412425849 (- 43), name = ''C#4''\<rparr>,
      \<lparr>keynb = Fin 27 1, freq = Fin 5166205231893291 (- 43), name = ''D4''\<rparr>,
      \<lparr>keynb = Fin 55 0, freq = Fin 5473403781076847 (- 43), name = ''D#4''\<rparr>,
      \<lparr>keynb = Fin 7 3, freq = Fin 5798869306577543 (- 43), name = ''E4''\<rparr>,
      \<lparr>keynb = Fin 57 0, freq = Fin 6143688019331785 (- 43), name = ''F4''\<rparr>,
      \<lparr>keynb = Fin 29 1, freq = Fin 6509010719739383 (- 43), name = ''F#4''\<rparr>,
      \<lparr>keynb = Fin 59 0, freq = Fin 6896056638352911 (- 43), name = ''G4''\<rparr>,
      \<lparr>keynb = Fin 15 2, freq = Fin 7306117504946335 (- 43), name = ''G#4''\<rparr>,
      \<lparr>keynb = Fin 61 0, freq = Fin 3870280929771529 (- 42), name = ''A5''\<rparr>,
      \<lparr>keynb = Fin 31 1, freq = Fin 8200839619791029 (- 43), name = ''A#5''\<rparr>,
      \<lparr>keynb = Fin 63 0, freq = Fin 4344243459964055 (- 42), name = ''B5''\<rparr>,
      \<lparr>keynb = Fin 1 6, freq = Fin 4602565618743649 (- 42), name = ''C5''\<rparr>,
      \<lparr>keynb = Fin 65 0, freq = Fin 4876248412425851 (- 42), name = ''C#5''\<rparr>,
      \<lparr>keynb = Fin 33 1, freq = Fin 5166205231893293 (- 42), name = ''D5''\<rparr>,
      \<lparr>keynb = Fin 67 0, freq = Fin 5473403781076849 (- 42), name = ''D#5''\<rparr>,
      \<lparr>keynb = Fin 17 2, freq = Fin 5798869306577545 (- 42), name = ''E5''\<rparr>,
      \<lparr>keynb = Fin 69 0, freq = Fin 6143688019331787 (- 42), name = ''F5''\<rparr>,
      \<lparr>keynb = Fin 35 1, freq = Fin 6509010719739385 (- 42), name = ''F#5''\<rparr>,
      \<lparr>keynb = Fin 71 0, freq = Fin 6896056638352913 (- 42), name = ''G5''\<rparr>,
      \<lparr>keynb = Fin 9 3, freq = Fin 7306117504946337 (- 42), name = ''G#5''\<rparr>,
      \<lparr>keynb = Fin 73 0, freq = Fin 1935140464885765 (- 40), name = ''A6''\<rparr>,
      \<lparr>keynb = Fin 37 1, freq = Fin 8200839619791031 (- 42), name = ''A#6''\<rparr>,
      \<lparr>keynb = Fin 75 0, freq = Fin 8688486919928113 (- 42), name = ''B6''\<rparr>,
      \<lparr>keynb = Fin 19 2, freq = Fin 4602565618743651 (- 41), name = ''C6''\<rparr>,
      \<lparr>keynb = Fin 77 0, freq = Fin 4876248412425853 (- 41), name = ''C#6''\<rparr>,
      \<lparr>keynb = Fin 39 1, freq = Fin 5166205231893295 (- 41), name = ''D6''\<rparr>,
      \<lparr>keynb = Fin 79 0, freq = Fin 5473403781076851 (- 41), name = ''D#6''\<rparr>,
      \<lparr>keynb = Fin 5 4, freq = Fin 1449717326644387 (- 39), name = ''E6''\<rparr>,
      \<lparr>keynb = Fin 81 0, freq = Fin 3071844009665895 (- 40), name = ''F6''\<rparr>,
      \<lparr>keynb = Fin 41 1, freq = Fin 1627252679934847 (- 39), name = ''F#6''\<rparr>,
      \<lparr>keynb = Fin 83 0, freq = Fin 1724014159588229 (- 39), name = ''G6''\<rparr>,
      \<lparr>keynb = Fin 21 2, freq = Fin 1826529376236585 (- 39), name = ''G#6''\<rparr>,
      \<lparr>keynb = Fin 85 0, freq = Fin 7740561859543063 (- 41), name = ''A7''\<rparr>,
      \<lparr>keynb = Fin 43 1, freq = Fin 8200839619791035 (- 41), name = ''A#7''\<rparr>,
      \<lparr>keynb = Fin 87 0, freq = Fin 8688486919928117 (- 41), name = ''B7''\<rparr>,
      \<lparr>keynb = Fin 11 3, freq = Fin 4602565618743653 (- 40), name = ''C7''\<rparr>]"
  by (simp add: getNotesInfo_def note_step_def FREQ_start_def DICT_KEYS_def DICT_OCTAVES_def
      FREQ_products KEYNB_increments Let_def decimal.simps dropRightWhile_from_index
      del: js_add.simps js_mul.simps)

section \<open>Numbers and their values\<close>

lemma align_value:
  "g \<le> e \<Longrightarrow> (of_int (a * 2 ^ nat (e - g)) :: real) * 2 powi g = of_int a * 2 powi e"
proof -
  assume "g \<le> e"
  then have "(2::real) ^ nat (e - g) = 2 powi (e - g)"
    by (simp add: power_int_def)
  moreover have "(2::real) powi (e - g) * 2 powi g = 2 powi e"
    by (simp add: power_int_add [symmetric])
  ultimately show ?thesis by (simp add: mult.assoc)
qed

lemma normalise_value:
  "\<exists>m' e'. normalise m e = Fin m' e' \<and> (of_int m' :: real) * 2 powi e' = of_int m * 2 powi e
     \<and> (m' = 0 \<longleftrightarrow> m = 0)"
proof (induction m e rule: normalise.induct)
  case (1 m e)
  show ?case
  proof (cases "m = 0")
    case True
    then show ?thesis by (subst normalise.simps) simp
  next
    case False
    show ?thesis
    proof (cases "even m")
      case True
      then obtain k where k: "m = 2 * k" by (auto elim: evenE)
      from 1 False True obtain m' e' where
        IH: "normalise (m div 2) (e + 1) = Fin m' e'"
            "(of_int m' :: real) * 2 powi e' = of_int (m div 2) * 2 powi (e + 1)"
            "m' = 0 \<longleftrightarrow> m div 2 = 0"
        by blast
      have "(of_int (m div 2) :: real) * 2 powi (e + 1) = of_int m * 2 powi e"
        using k by (simp add: power_int_add)
      moreover have "m div 2 = 0 \<longleftrightarrow> m = 0" using k by simp
      ultimately show ?thesis using IH False True by (subst normalise.simps) simp
    next
      case odd: False
      then show ?thesis using False by (subst normalise.simps) simp
    qed
  qed
qed

lemma value_of_normalise: "value_of (normalise m e) = Some (of_int m * 2 powi e)"
  using normalise_value [of m e] by auto

lemma value_of_number_of_nat: "value_of (number_of_nat n) = Some (real n)"
  by (simp add: number_of_nat_def value_of_normalise)

lemma js_eq_Fin_iff:
  "js_eq (Fin a e) (Fin b f) \<longleftrightarrow> (of_int a :: real) * 2 powi e = of_int b * 2 powi f"
proof -
  define g where "g = min e f"
  have ge: "g \<le> e" and gf: "g \<le> f" by (simp_all add: g_def)
  have pos: "(2::real) powi g > 0" by simp
  have "js_eq (Fin a e) (Fin b f) \<longleftrightarrow> a * 2 ^ nat (e - g) = b * 2 ^ nat (f - g)"
    by (simp add: g_def Let_def)
  also have "\<dots> \<longleftrightarrow> (of_int (a * 2 ^ nat (e - g)) :: real) = of_int (b * 2 ^ nat (f - g))"
    by (simp only: of_int_eq_iff)
  also have "\<dots> \<longleftrightarrow> (of_int (a * 2 ^ nat (e - g)) :: real) * 2 powi g
                      = of_int (b * 2 ^ nat (f - g)) * 2 powi g"
    using pos by simp
  also have "\<dots> \<longleftrightarrow> (of_int a :: real) * 2 powi e = of_int b * 2 powi f"
    by (simp only: align_value [OF ge] align_value [OF gf])
  finally show ?thesis .
qed

lemma js_eq_iff_value: "js_eq x y \<longleftrightarrow> (\<exists>v. value_of x = Some v \<and> value_of y = Some v) \<or> (x = PosInf \<and> y = PosInf) \<or> (x = NegInf \<and> y = NegInf)"
  by (cases x; cases y) (auto simp add: js_eq_Fin_iff simp del: js_eq.simps(1))

lemma js_lt_Fin_iff:
  "js_lt (Fin a e) (Fin b f) \<longleftrightarrow> (of_int a :: real) * 2 powi e < of_int b * 2 powi f"
proof -
  define g where "g = min e f"
  have ge: "g \<le> e" and gf: "g \<le> f" by (simp_all add: g_def)
  have pos: "(2::real) powi g > 0" by simp
  have "js_lt (Fin a e) (Fin b f) \<longleftrightarrow> a * 2 ^ nat (e - g) < b * 2 ^ nat (f - g)"
    by (simp add: g_def Let_def)
  also have "\<dots> \<longleftrightarrow> (of_int (a * 2 ^ nat (e - g)) :: real) < of_int (b * 2 ^ nat (f - g))"
    by (simp only: of_int_less_iff)
  also have "\<dots> \<longleftrightarrow> (of_int (a * 2 ^ nat (e - g)) :: real) * 2 powi g
                      < of_int (b * 2 ^ nat (f - g)) * 2 powi g"
    using pos by simp
  also have "\<dots> \<longleftrightarrow> (of_int a :: real) * 2 powi e < of_int b * 2 powi f"
    by (simp only: align_value [OF ge] align_value [OF gf])
  finally show ?thesis .
qed

text \<open>
  The constants of the model are the binary64 values nearest to what the source writes:
  half a unit in the last place is the largest distance a nearest value can have.
\<close>

lemma FREQ_start_nearest:
  "value_of FREQ_start = Some (3653058752473159 / 2 ^ 47)"
  "\<bar>(3653058752473159 / 2 ^ 47 :: real) - 2595654359874657 / 10 ^ 14\<bar> \<le> 1 / 2 ^ 49"
  by (simp_all add: FREQ_start_def power_int_minus)

lemma attack_release_nearest:
  "\<bar>(of_int 5404319552844595 * 2 powi (- 54) :: real) - 3 / 10\<bar> \<le> 1 / 2 ^ 55"
  "\<bar>(of_int 3602879701896397 * 2 powi (- 55) :: real) - 1 / 10\<bar> \<le> 1 / 2 ^ 57"
  by (simp_all add: power_int_minus)

section \<open>The note table: key numbers and frequencies\<close>

lemma keynb_getNotesInfo: "map keynb getNotesInfo = map number_of_nat [1..<89]"
  by (simp add: getNotesInfo_table number_of_nat_def normalise.simps upt_conv_Cons)

text \<open>
  C1: \<open>getNotesInfo()\<close> returns exactly 88 records, and their key numbers are the
  integers 1 to 88 in ascending order, each once.
\<close>

theorem C1_getNotesInfo_key_numbers:
  "length getNotesInfo = 88 \<and>
   map (\<lambda>e. value_of (keynb e)) getNotesInfo = map (\<lambda>k. Some (real k)) [1..<89]"
  by (simp add: getNotesInfo_table upt_conv_Cons)

lemma semitone_ok_sound:
  assumes "semitone_ok x y"
  shows "\<exists>a b. value_of x = Some a \<and> value_of y = Some b \<and> 0 < a \<and> a < b \<and>
           \<bar>b / a - 4771397596969315 / 2 ^ 52\<bar> \<le> 4771397596969315 / 2 ^ 52 / 2 ^ 52"
proof -
  from assms obtain m e n f where x: "x = Fin m e" and y: "y = Fin n f"
    by (cases x; cases y) simp_all
  define g where "g = min e f"
  define A where "A = m * 2 ^ nat (e - g)"
  define B where "B = n * 2 ^ nat (f - g)"
  define a :: real where "a = of_int m * 2 powi e"
  define b :: real where "b = of_int n * 2 powi f"
  define P :: real where "P = 4771397596969315"
  have ge: "g \<le> e" and gf: "g \<le> f" by (simp_all add: g_def)
  have pos: "(2::real) powi g > 0" by simp
  have a: "a = of_int A * 2 powi g" and b: "b = of_int B * 2 powi g"
    by (simp_all only: a_def b_def A_def B_def align_value [OF ge] align_value [OF gf])
  from assms have A0: "0 < A" and AB: "A < B"
    and close: "\<bar>B * 2 ^ 52 - A * 4771397596969315\<bar> * 2 ^ 52 \<le> A * 4771397596969315"
    by (simp_all add: x y g_def A_def B_def Let_def)
  have a0: "0 < a" using A0 pos by (simp add: a)
  have ab: "a < b" using AB pos by (simp add: a b)
  have "(of_int (\<bar>B * 2 ^ 52 - A * 4771397596969315\<bar> * 2 ^ 52) :: real)
          \<le> of_int (A * 4771397596969315)"
    using close by (simp only: of_int_le_iff)
  then have "\<bar>of_int B * 2 ^ 52 - of_int A * P\<bar> * 2 ^ 52 \<le> of_int A * P"
    by (simp add: P_def)
  then have scaled:
    "\<bar>of_int B * 2 ^ 52 - of_int A * P\<bar> * 2 ^ 52 * 2 powi g \<le> of_int A * P * 2 powi g"
    using pos by (simp only: mult_le_cancel_right_pos)
  have diff: "\<bar>b * 2 ^ 52 - a * P\<bar> = \<bar>of_int B * 2 ^ 52 - of_int A * P\<bar> * 2 powi g"
  proof -
    have "b * 2 ^ 52 - a * P = (of_int B * 2 ^ 52 - of_int A * P) * 2 powi g"
      by (simp add: a b algebra_simps)
    then show ?thesis using pos by (simp only: abs_mult abs_of_pos)
  qed
  have "\<bar>b * 2 ^ 52 - a * P\<bar> * 2 ^ 52
          = \<bar>of_int B * 2 ^ 52 - of_int A * P\<bar> * 2 ^ 52 * 2 powi g"
    by (simp only: diff mult.assoc mult.commute [of "2 powi g"])
  also have "\<dots> \<le> of_int A * P * 2 powi g" by (rule scaled)
  also have "\<dots> = a * P" by (simp only: a mult.assoc mult.commute [of P])
  finally have "\<bar>b * 2 ^ 52 - a * P\<bar> * 2 ^ 52 \<le> a * P" .
  define c :: real where "c = 2 ^ 52"
  define D where "D = \<bar>b * c - a * P\<bar>"
  have c0: "0 < c" by (simp add: c_def)
  have H: "D * c \<le> a * P"
    using \<open>\<bar>b * 2 ^ 52 - a * P\<bar> * 2 ^ 52 \<le> a * P\<close> by (simp only: D_def c_def)
  have ac0: "0 < a * c" using a0 c0 by simp
  have "b / a - P / c = (b * c - a * P) / (a * c)"
    using a0 c0 by (simp add: field_simps)
  then have "\<bar>b / a - P / c\<bar> = D / (a * c)"
    using ac0 by (simp only: abs_divide D_def abs_of_pos)
  also have "\<dots> \<le> P / c / c"
  proof -
    have "D \<le> a * P / c" using H c0 by (simp only: pos_le_divide_eq)
    then have "D / (a * c) \<le> a * P / c / (a * c)"
      using ac0 by (simp only: divide_le_cancel) simp
    also have "a * P / c / (a * c) = P / c / c" using a0 by simp
    finally show ?thesis .
  qed
  finally have "\<bar>b / a - P / c\<bar> \<le> P / c / c" .
  then show ?thesis using a0 ab by (simp add: x y a_def b_def P_def c_def)
qed

lemma semitones_ok_nth:
  "semitones_ok xs \<Longrightarrow> Suc i < length xs \<Longrightarrow> semitone_ok (xs ! i) (xs ! Suc i)"
proof (induction xs arbitrary: i rule: semitones_ok.induct)
  case (1 x y zs)
  then show ?case by (cases i) simp_all
qed simp_all

lemma twelfth_root_bounds:
  "4771397596969314 / 2 ^ 52 < root 12 2" "root 12 2 < 4771397596969316 / 2 ^ 52"
proof -
  have r: "root 12 2 ^ 12 = (2::real)" by simp
  have r0: "0 \<le> root 12 (2::real)" by simp
  have lo: "(4771397596969314 / 2 ^ 52 :: real) ^ 12 < 2" by (simp add: power_divide)
  have hi: "2 < (4771397596969316 / 2 ^ 52 :: real) ^ 12" by (simp add: power_divide)
  show "4771397596969314 / 2 ^ 52 < root 12 2"
  proof (rule ccontr)
    assume "\<not> 4771397596969314 / 2 ^ 52 < root 12 2"
    then have "root 12 2 \<le> (4771397596969314 / 2 ^ 52 :: real)" by simp
    then have "root 12 2 ^ 12 \<le> (4771397596969314 / 2 ^ 52 :: real) ^ 12"
      using r0 by (rule power_mono)
    with r lo show False by simp
  qed
  show "root 12 2 < 4771397596969316 / 2 ^ 52"
  proof (rule ccontr)
    assume "\<not> root 12 2 < 4771397596969316 / 2 ^ 52"
    then have "(4771397596969316 / 2 ^ 52 :: real) \<le> root 12 2" by simp
    then have "(4771397596969316 / 2 ^ 52 :: real) ^ 12 \<le> root 12 2 ^ 12"
      by (intro power_mono) simp_all
    with r hi show False by simp
  qed
qed

lemma Math_pow_2_12th_nearest:
  "value_of Math_pow_2_12th = Some (4771397596969315 / 2 ^ 52)"
  "\<bar>4771397596969315 / 2 ^ 52 - root 12 2\<bar> < 1 / 2 ^ 52"
proof -
  define p :: real where "p = 4771397596969315 / 2 ^ 52"
  define u :: real where "u = 1 / 2 ^ 52"
  have "p - u = 4771397596969314 / 2 ^ 52" "p + u = 4771397596969316 / 2 ^ 52"
    by (simp_all add: p_def u_def)
  then have "p - u < root 12 2" "root 12 2 < p + u"
    using twelfth_root_bounds by simp_all
  then have "\<bar>p - root 12 2\<bar> < u" by linarith
  then show "\<bar>4771397596969315 / 2 ^ 52 - root 12 2\<bar> < 1 / 2 ^ 52"
    by (simp only: p_def u_def)
  show "value_of Math_pow_2_12th = Some (4771397596969315 / 2 ^ 52)"
    by (simp add: Math_pow_2_12th_def power_int_minus)
qed

lemma semitones_ok_getNotesInfo: "semitones_ok (map freq getNotesInfo)"
  by (simp add: getNotesInfo_table Let_def)

lemma length_getNotesInfo: "length getNotesInfo = 88"
  by (simp add: getNotesInfo_table)

lemma consecutive_frequencies:
  assumes "i < 87"
  shows "\<exists>a b. value_of (freq (getNotesInfo ! i)) = Some a \<and>
               value_of (freq (getNotesInfo ! Suc i)) = Some b \<and> 0 < a \<and> a < b \<and>
               \<bar>b / a - root 12 2\<bar> \<le> root 12 2 / 10 ^ 9"
proof -
  have "semitone_ok (map freq getNotesInfo ! i) (map freq getNotesInfo ! Suc i)"
    using assms by (intro semitones_ok_nth semitones_ok_getNotesInfo) (simp add: length_getNotesInfo)
  then have "semitone_ok (freq (getNotesInfo ! i)) (freq (getNotesInfo ! Suc i))"
    using assms by (simp add: length_getNotesInfo)
  then obtain a b where ab: "value_of (freq (getNotesInfo ! i)) = Some a"
      "value_of (freq (getNotesInfo ! Suc i)) = Some b" "0 < a" "a < b"
      and close: "\<bar>b / a - 4771397596969315 / 2 ^ 52\<bar> \<le> 4771397596969315 / 2 ^ 52 / 2 ^ 52"
    using semitone_ok_sound by blast
  define r :: real where "r = root 12 2"
  define p :: real where "p = 4771397596969315 / 2 ^ 52"
  define u :: real where "u = 1 / 2 ^ 52"
  have "p - u = 4771397596969314 / 2 ^ 52" "p + u = 4771397596969316 / 2 ^ 52"
    by (simp_all add: p_def u_def)
  then have lo: "p - u < r" and hi: "r < p + u"
    using twelfth_root_bounds by (simp_all only: r_def)
  have close': "\<bar>b / a - p\<bar> \<le> p * u"
    using close by (simp add: p_def u_def)
  have "\<bar>b / a - r\<bar> \<le> \<bar>b / a - p\<bar> + \<bar>p - r\<bar>"
    by linarith
  also have "\<dots> \<le> p * u + u"
    using close' lo hi by linarith
  also have "\<dots> \<le> (p - u) / 10 ^ 9" by (simp add: p_def u_def)
  also have "\<dots> \<le> r / 10 ^ 9" using lo by (simp only: divide_right_mono less_imp_le zero_le_numeral zero_le_power)
  finally show ?thesis using ab by (auto simp: r_def)
qed

lemma increasing_frequencies:
  assumes "i < j" "j < 88"
  shows "\<exists>a b. value_of (freq (getNotesInfo ! i)) = Some a \<and>
               value_of (freq (getNotesInfo ! j)) = Some b \<and> a < b"
  using assms
proof (induction j)
  case 0
  then show ?case by simp
next
  case (Suc j)
  then have j: "j < 87" by simp
  from consecutive_frequencies [OF j] obtain a b where
    ab: "value_of (freq (getNotesInfo ! j)) = Some a"
        "value_of (freq (getNotesInfo ! Suc j)) = Some b" "a < b"
    by blast
  show ?case
  proof (cases "i = j")
    case True
    then show ?thesis using ab by blast
  next
    case False
    with Suc.prems have "i < j" by simp
    with Suc.IH j obtain a' b' where
      "value_of (freq (getNotesInfo ! i)) = Some a'" "value_of (freq (getNotesInfo ! j)) = Some b'"
      "a' < b'" by force
    with ab show ?thesis by force
  qed
qed

text \<open>
  C2: in the table of \<open>getNotesInfo()\<close> the frequencies are strictly increasing, and the
  ratio of each frequency to the one before is the twelfth root of two within a relative
  tolerance of \<open>1e-9\<close>.
\<close>

theorem C2_frequencies_increase_by_semitones:
  assumes "i < j" and "j < 88"
  shows "\<exists>a b. value_of (freq (getNotesInfo ! i)) = Some a \<and>
               value_of (freq (getNotesInfo ! j)) = Some b \<and> a < b \<and>
               (j = Suc i \<longrightarrow> \<bar>b / a - root 12 2\<bar> \<le> root 12 2 / 10 ^ 9)"
proof (cases "j = Suc i")
  case True
  with assms have "i < 87" by simp
  from consecutive_frequencies [OF this] show ?thesis using True by blast
next
  case False
  with increasing_frequencies [OF assms] show ?thesis by blast
qed

theorem C2_witness:
  "\<exists>a b. value_of (freq (getNotesInfo ! 48)) = Some a \<and>
         value_of (freq (getNotesInfo ! Suc 48)) = Some b \<and> a < b \<and>
         \<bar>b / a - root 12 2\<bar> \<le> root 12 2 / 10 ^ 9"
  using C2_frequencies_increase_by_semitones [of 48 "Suc 48"] by simp

text \<open>
  C3: the entry with key number 1 is named A0 and has 27.5 Hz, the entry with key number
  49 is named A4 and has 440 Hz within 0.01, and the entry with key number 88 has 4186 Hz
  within 1, but is named C7, not C8: the octave digit of a name is the index of the
  group of twelve the entry was generated in, and these groups start at A.
\<close>

theorem C3_key_88_is_named_C7:
  "(\<exists>e v. find (\<lambda>e. js_eq (keynb e) (number_of_nat 1)) getNotesInfo = Some e \<and>
      noteInfo.name e = ''A0'' \<and> value_of (freq e) = Some v \<and> \<bar>v - 27.5\<bar> \<le> 0.01) \<and>
   (\<exists>e v. find (\<lambda>e. js_eq (keynb e) (number_of_nat 49)) getNotesInfo = Some e \<and>
      noteInfo.name e = ''A4'' \<and> value_of (freq e) = Some v \<and> \<bar>v - 440\<bar> \<le> 0.01) \<and>
   (\<exists>e v. find (\<lambda>e. js_eq (keynb e) (number_of_nat 88)) getNotesInfo = Some e \<and>
      noteInfo.name e = ''C7'' \<and> value_of (freq e) = Some v \<and> \<bar>v - 4186\<bar> \<le> 1)"
proof (intro conjI)
  have k: "number_of_nat (Suc 0) = Fin 1 0" "number_of_nat 49 = Fin 49 0"
    "number_of_nat 88 = Fin 11 3"
    by (simp_all add: number_of_nat_def normalise.simps)
  show "\<exists>e v. find (\<lambda>e. js_eq (keynb e) (number_of_nat 1)) getNotesInfo = Some e \<and>
      noteInfo.name e = ''A0'' \<and> value_of (freq e) = Some v \<and> \<bar>v - 27.5\<bar> \<le> 0.01"
    by (rule exI [of _ "\<lparr>keynb = Fin 1 0, freq = Fin 55 (- 1), name = ''A0''\<rparr>"],
        rule exI [of _ "55 / 2"])
       (simp add: k getNotesInfo_table power_int_minus)
  show "\<exists>e v. find (\<lambda>e. js_eq (keynb e) (number_of_nat 49)) getNotesInfo = Some e \<and>
      noteInfo.name e = ''A4'' \<and> value_of (freq e) = Some v \<and> \<bar>v - 440\<bar> \<le> 0.01"
    by (rule exI [of _ "\<lparr>keynb = Fin 49 0, freq = Fin 3870280929771527 (- 43), name = ''A4''\<rparr>"],
        rule exI [of _ "3870280929771527 / 2 ^ 43"])
       (simp add: k getNotesInfo_table power_int_minus)
  show "\<exists>e v. find (\<lambda>e. js_eq (keynb e) (number_of_nat 88)) getNotesInfo = Some e \<and>
      noteInfo.name e = ''C7'' \<and> value_of (freq e) = Some v \<and> \<bar>v - 4186\<bar> \<le> 1"
    by (rule exI [of _ "\<lparr>keynb = Fin 11 3, freq = Fin 4602565618743653 (- 40), name = ''C7''\<rparr>"],
        rule exI [of _ "4602565618743653 / 2 ^ 40"])
       (simp add: k getNotesInfo_table power_int_minus)
qed

section \<open>The name path\<close>

lemma parseInt_last_char:
  "parseInt (last_char s) = Some d \<longleftrightarrow> s \<noteq> [] \<and> map_of digits (last s) = Some d"
proof (cases s rule: rev_cases)
  case Nil
  then show ?thesis by (simp add: parseInt_def last_char_def)
next
  case (snoc xs c)
  then show ?thesis by (simp add: parseInt_def last_char_def)
qed

lemma digit_outside_octaves:
  "map_of digits c = Some d \<and> (d < 1 \<or> 8 < d) \<longleftrightarrow>
     (c = CHR ''0'' \<and> d = 0) \<or> (c = CHR ''9'' \<and> d = 9)"
  by (auto simp add: digits_def split: if_splits)

text \<open>
  C6: when the last character of the name parses to an integer outside 1..8, which is
  the case exactly for the digits 0 and 9, \<open>buildFromName\<close> writes its diagnostic and
  returns null.
\<close>

theorem C6_octave_outside_range:
  assumes "parseInt (last_char s) = Some d" and "d < 1 \<or> 8 < d"
  shows "buildFromName h (Some s) ac = ([Error (InvalidOctave s), Usage BuildFromName], None)"
  using assms by (simp add: buildFromName_def buildFromName_try_def)

theorem C6_witness:
  "parseInt (last_char ''Z9'') = Some 9 \<and>
   buildFromName host0 (Some ''Z9'') None = ([Error (InvalidOctave ''Z9''), Usage BuildFromName], None)"
proof -
  have p: "parseInt (last_char ''Z9'') = Some 9"
    by (simp add: parseInt_def last_char_def digits_def)
  from C6_octave_outside_range [OF p, of host0 None] p show ?thesis by simp
qed

section \<open>The key-number path\<close>

lemma js_eq_number_of_nat: "js_eq (number_of_nat a) k \<longleftrightarrow> value_of k = Some (real a)"
proof -
  obtain m e where n: "number_of_nat a = Fin m e"
    using normalise_value [of "int a" 0] by (auto simp: number_of_nat_def)
  have "value_of (Fin m e) = Some (real a)"
    using value_of_number_of_nat [of a] by (simp only: n)
  then show ?thesis
    unfolding n by (cases k) (auto simp add: js_eq_Fin_iff simp del: js_eq.simps(1))
qed

lemma find_keynb_Some:
  assumes "\<forall>j < length T. keynb (T ! j) = number_of_nat (a + j)"
    and "a \<le> i" and "i < a + length T" and "value_of k = Some (real i)"
  shows "find (\<lambda>e. js_eq (keynb e) k) T = Some (T ! (i - a))"
  using assms
proof (induction T arbitrary: a)
  case Nil
  then show ?case by simp
next
  case (Cons x T)
  from Cons.prems(1) have x: "keynb x = number_of_nat a" by auto
  from Cons.prems(1) have T: "\<forall>j < length T. keynb (T ! j) = number_of_nat (Suc a + j)"
    by fastforce
  show ?case
  proof (cases "i = a")
    case True
    then show ?thesis using x Cons.prems(4) by (simp add: js_eq_number_of_nat)
  next
    case False
    with Cons.prems have "Suc a \<le> i" "i < Suc a + length T" by simp_all
    from Cons.IH [OF T this Cons.prems(4)] False Cons.prems(2,4) x show ?thesis
      by (simp add: js_eq_number_of_nat Suc_diff_le)
  qed
qed

lemma find_keynb_None:
  assumes "\<forall>j < length T. keynb (T ! j) = number_of_nat (a + j)"
    and "\<forall>i. a \<le> i \<and> i < a + length T \<longrightarrow> value_of k \<noteq> Some (real i)"
  shows "find (\<lambda>e. js_eq (keynb e) k) T = None"
  using assms
proof (induction T arbitrary: a)
  case Nil
  then show ?case by simp
next
  case (Cons x T)
  from Cons.prems(1) have x: "keynb x = number_of_nat a" by auto
  from Cons.prems(1) have T: "\<forall>j < length T. keynb (T ! j) = number_of_nat (Suc a + j)"
    by fastforce
  have "value_of k \<noteq> Some (real a)" using Cons.prems(2) by simp
  moreover have "find (\<lambda>e. js_eq (keynb e) k) T = None"
    using Cons.prems(2) by (intro Cons.IH [OF T]) simp
  ultimately show ?case using x by (simp add: js_eq_number_of_nat)
qed

lemma keynb_nth_getNotesInfo:
  assumes "j < 88"
  shows "keynb (getNotesInfo ! j) = number_of_nat (1 + j)"
proof -
  have "map keynb getNotesInfo ! j = map number_of_nat [1..<89] ! j"
    by (simp only: keynb_getNotesInfo)
  then show ?thesis using assms by (simp add: length_getNotesInfo)
qed

lemma keynb_table: "\<forall>j < length getNotesInfo. keynb (getNotesInfo ! j) = number_of_nat (1 + j)"
  by (simp add: keynb_nth_getNotesInfo length_getNotesInfo)

lemma new_notePlayer_fields:
  "pianoKeyNb (snd (new_notePlayer h n ac)) = keynb n"
  "frequency (snd (new_notePlayer h n ac)) = freq n"
  "name (snd (new_notePlayer h n ac)) = noteInfo.name n"
  "octave (snd (new_notePlayer h n ac)) = last_char (noteInfo.name n)"
  by (simp_all add: new_notePlayer_def Let_def split: option.splits)

lemma buildFromKeyNb_found:
  assumes "1 \<le> i" and "i \<le> 88" and "value_of k = Some (real i)"
  shows "buildFromKeyNb h (Some k) ac
           = (fst (new_notePlayer h (getNotesInfo ! (i - 1)) ac),
              Some (snd (new_notePlayer h (getNotesInfo ! (i - 1)) ac)))"
proof -
  have "find (\<lambda>e. js_eq (keynb e) k) getNotesInfo = Some (getNotesInfo ! (i - 1))"
    using assms by (intro find_keynb_Some [OF keynb_table]) (simp_all add: length_getNotesInfo)
  then show ?thesis by (simp add: buildFromKeyNb_def buildFromKeyNb_try_def)
qed

lemma buildFromKeyNb_not_found:
  assumes "\<forall>i. 1 \<le> i \<and> i \<le> 88 \<longrightarrow> value_of k \<noteq> Some (real i)"
  shows "buildFromKeyNb h (Some k) ac = ([Error (InvalidKeyNumber k), Usage BuildFromKeyNb], None)"
proof -
  have "find (\<lambda>e. js_eq (keynb e) k) getNotesInfo = None"
    using assms by (intro find_keynb_None [OF keynb_table]) (simp add: length_getNotesInfo)
  then show ?thesis by (simp add: buildFromKeyNb_def buildFromKeyNb_try_def)
qed

text \<open>
  C7: for a number \<open>k\<close>, \<open>buildFromKeyNb\<close> returns a player with the fields of the
  table entry whose key number equals \<open>k\<close> when \<open>k\<close> is one of the integers 1 to 88,
  and writes its diagnostic and returns null for every other number.
\<close>

theorem C7_buildFromKeyNb:
  "(\<forall>i. 1 \<le> i \<and> i \<le> 88 \<and> value_of k = Some (real i) \<longrightarrow>
      (\<exists>p. snd (buildFromKeyNb h (Some k) ac) = Some p \<and>
           pianoKeyNb p = keynb (getNotesInfo ! (i - 1)) \<and>
           frequency p = freq (getNotesInfo ! (i - 1)) \<and>
           name p = noteInfo.name (getNotesInfo ! (i - 1)) \<and>
           value_of (pianoKeyNb p) = Some (real i))) \<and>
   ((\<forall>i. 1 \<le> i \<and> i \<le> 88 \<longrightarrow> value_of k \<noteq> Some (real i)) \<longrightarrow>
      buildFromKeyNb h (Some k) ac = ([Error (InvalidKeyNumber k), Usage BuildFromKeyNb], None))"
proof (intro conjI allI impI)
  fix i
  assume i: "1 \<le> i \<and> i \<le> 88 \<and> value_of k = Some (real i)"
  then have "buildFromKeyNb h (Some k) ac
           = (fst (new_notePlayer h (getNotesInfo ! (i - 1)) ac),
              Some (snd (new_notePlayer h (getNotesInfo ! (i - 1)) ac)))"
    by (intro buildFromKeyNb_found) simp_all
  moreover have "value_of (keynb (getNotesInfo ! (i - 1))) = Some (real i)"
  proof -
    from i have "i - 1 < 88" and "1 + (i - 1) = i" by auto
    with keynb_nth_getNotesInfo [of "i - 1"]
    have "keynb (getNotesInfo ! (i - 1)) = number_of_nat i" by simp
    then show ?thesis by (simp only: value_of_number_of_nat)
  qed
  ultimately show "\<exists>p. snd (buildFromKeyNb h (Some k) ac) = Some p \<and>
           pianoKeyNb p = keynb (getNotesInfo ! (i - 1)) \<and>
           frequency p = freq (getNotesInfo ! (i - 1)) \<and>
           name p = noteInfo.name (getNotesInfo ! (i - 1)) \<and>
           value_of (pianoKeyNb p) = Some (real i)"
    by (simp add: new_notePlayer_fields)
next
  assume "\<forall>i. 1 \<le> i \<and> i \<le> 88 \<longrightarrow> value_of k \<noteq> Some (real i)"
  then show "buildFromKeyNb h (Some k) ac
               = ([Error (InvalidKeyNumber k), Usage BuildFromKeyNb], None)"
    by (rule buildFromKeyNb_not_found)
qed

theorem C7_witness:
  "(\<exists>p. snd (buildFromKeyNb host0 (Some (Fin 49 0)) None) = Some p \<and> name p = ''A4'') \<and>
   snd (buildFromKeyNb host0 (Some (Fin 0 0)) None) = None \<and>
   snd (buildFromKeyNb host0 (Some (Fin 89 0)) None) = None"
proof -
  have "noteInfo.name (getNotesInfo ! (49 - 1)) = ''A4''"
    by (simp add: getNotesInfo_table)
  moreover have "value_of (Fin 49 0) = Some (real 49)" by simp
  ultimately have "\<exists>p. snd (buildFromKeyNb host0 (Some (Fin 49 0)) None) = Some p \<and> name p = ''A4''"
    using C7_buildFromKeyNb [of "Fin 49 0" host0 None] by force
  moreover have "\<forall>i. 1 \<le> i \<and> i \<le> 88 \<longrightarrow> value_of (Fin 0 0) \<noteq> Some (real i)" by simp
  then have "snd (buildFromKeyNb host0 (Some (Fin 0 0)) None) = None"
    using C7_buildFromKeyNb [of "Fin 0 0" host0 None] by simp
  moreover have "\<forall>i. 1 \<le> i \<and> i \<le> 88 \<longrightarrow> value_of (Fin 89 0) \<noteq> Some (real i)" by auto
  then have "snd (buildFromKeyNb host0 (Some (Fin 89 0)) None) = None"
    using C7_buildFromKeyNb [of "Fin 89 0" host0 None] by simp
  ultimately show ?thesis by blast
qed

section \<open>Flat names\<close>

lemma decimal_digit: "d < 10 \<Longrightarrow> decimal d = [''0123456789'' ! d]"
  by (simp add: decimal.simps)

lemma octave_digits:
  assumes "1 \<le> d" and "d \<le> 8"
  shows "d = 1 \<or> d = 2 \<or> d = 3 \<or> d = 4 \<or> d = 5 \<or> d = 6 \<or> d = 7 \<or> d = (8::nat)"
  using assms by arith

lemma octave_digit_char:
  assumes "1 \<le> d" and "d \<le> 8"
  shows "\<exists>c. decimal d = [c] \<and> map_of digits c = Some d \<and> c \<noteq> CHR ''b''"
  using octave_digits [OF assms]
  by (elim disjE) (simp_all add: decimal_digit digits_def)

lemma translation_cases:
  assumes "(fl, t) \<in> set DICT_TRANSLATIONS" and "c \<noteq> CHR ''b''"
  shows "take 2 (fl @ [c]) = fl \<and> map_of DICT_TRANSLATIONS fl = Some t \<and>
         map_of DICT_TRANSLATIONS (take 2 (t @ [c])) = None"
proof -
  from assms(1) have "(fl, t) = (''Cb'', ''B'') \<or> (fl, t) = (''Db'', ''C#'') \<or>
      (fl, t) = (''Eb'', ''D#'') \<or> (fl, t) = (''Fb'', ''E'') \<or> (fl, t) = (''Gb'', ''F#'') \<or>
      (fl, t) = (''Ab'', ''G#'') \<or> (fl, t) = (''Bb'', ''A#'')"
    by (simp add: DICT_TRANSLATIONS_def)
  then show ?thesis using assms(2)
    by (elim disjE) (simp_all add: DICT_TRANSLATIONS_def)
qed

lemma buildFromName_try_flat:
  assumes "(fl, t) \<in> set DICT_TRANSLATIONS" and "1 \<le> d" and "d \<le> 8"
  shows "buildFromName_try h (Some (fl @ decimal d)) ac
           = (case find (\<lambda>e. noteInfo.name e = t @ decimal d) getNotesInfo of
                None \<Rightarrow> Inl (InvalidNoteName (t @ decimal d))
              | Some n \<Rightarrow> Inr (new_notePlayer h n ac))"
    and "buildFromName_try h (Some (t @ decimal d)) ac
           = (case find (\<lambda>e. noteInfo.name e = t @ decimal d) getNotesInfo of
                None \<Rightarrow> Inl (InvalidNoteName (t @ decimal d))
              | Some n \<Rightarrow> Inr (new_notePlayer h n ac))"
proof -
  from octave_digit_char [OF assms(2,3)] obtain c where
    c: "decimal d = [c]" "map_of digits c = Some d" "c \<noteq> CHR ''b''" by blast
  from translation_cases [OF assms(1) c(3)] have
    t: "take 2 (fl @ [c]) = fl" "map_of DICT_TRANSLATIONS fl = Some t"
       "map_of DICT_TRANSLATIONS (take 2 (t @ [c])) = None" by simp_all
  have p: "parseInt (last_char (fl @ [c])) = Some d" "parseInt (last_char (t @ [c])) = Some d"
    using c(2) by (simp_all add: parseInt_def last_char_def)
  have d: "\<not> (d < 1 \<or> 8 < d)" using assms(2,3) by simp
  have s: "to_string (Some d) = [c]" by (simp add: to_string_def c(1))
  show "buildFromName_try h (Some (fl @ decimal d)) ac
           = (case find (\<lambda>e. noteInfo.name e = t @ decimal d) getNotesInfo of
                None \<Rightarrow> Inl (InvalidNoteName (t @ decimal d))
              | Some n \<Rightarrow> Inr (new_notePlayer h n ac))"
    unfolding c(1) buildFromName_try_def
    by (simp only: option.case p(1) d t(1,2) s Let_def if_False)
  show "buildFromName_try h (Some (t @ decimal d)) ac
           = (case find (\<lambda>e. noteInfo.name e = t @ decimal d) getNotesInfo of
                None \<Rightarrow> Inl (InvalidNoteName (t @ decimal d))
              | Some n \<Rightarrow> Inr (new_notePlayer h n ac))"
    unfolding c(1) buildFromName_try_def
    by (simp only: option.case p(2) d t(3) s Let_def if_False)
qed

text \<open>
  C5, amended: for a flat pitch class (Cb, Db, Eb, Fb, Gb, Ab, Bb) and an octave digit
  from 1 to 8, \<open>buildFromName\<close> returns for the flat name what it returns for the sharp
  or natural name of the table of translations with the same digit: a player with the
  key number, the frequency and the name of the table entry of that name when there is
  one, and null for both when there is none.
\<close>

theorem C5_flat_names:
  assumes "(fl, t) \<in> set DICT_TRANSLATIONS" and "1 \<le> d" and "d \<le> 8"
  shows "buildFromName h (Some (fl @ decimal d)) ac = buildFromName h (Some (t @ decimal d)) ac \<and>
         (case find (\<lambda>e. noteInfo.name e = t @ decimal d) getNotesInfo of
            None \<Rightarrow> snd (buildFromName h (Some (fl @ decimal d)) ac) = None
          | Some n \<Rightarrow> \<exists>p. snd (buildFromName h (Some (fl @ decimal d)) ac) = Some p \<and>
                           pianoKeyNb p = keynb n \<and> frequency p = freq n \<and>
                           name p = t @ decimal d)"
proof (cases "find (\<lambda>e. noteInfo.name e = t @ decimal d) getNotesInfo")
  case None
  then show ?thesis
    by (simp add: buildFromName_def buildFromName_try_flat [OF assms])
next
  case (Some n)
  then have "noteInfo.name n = t @ decimal d"
    by (auto simp add: find_Some_iff)
  with Some show ?thesis
    by (simp add: buildFromName_def buildFromName_try_flat [OF assms] new_notePlayer_fields)
qed

theorem C5_witness:
  "buildFromName host0 (Some ''Bb3'') None = buildFromName host0 (Some ''A#3'') None \<and>
   (\<exists>p. snd (buildFromName host0 (Some ''Bb3'') None) = Some p \<and>
        pianoKeyNb p = Fin 19 1 \<and> name p = ''A#3'')"
proof -
  have "(''Bb'', ''A#'') \<in> set DICT_TRANSLATIONS"
    by (simp add: DICT_TRANSLATIONS_def)
  moreover have "find (\<lambda>e. noteInfo.name e = ''A#3'') getNotesInfo = Some (getNotesInfo ! 37)"
    "keynb (getNotesInfo ! 37) = Fin 19 1"
    by (simp_all add: getNotesInfo_table)
  ultimately show ?thesis
    using C5_flat_names [of "''Bb''" "''A#''" 3 host0 None] by (auto simp add: decimal_digit)
qed

text \<open>
  The flat name Bb8 yields no player: its translation A#8 is not in the table.
\<close>

theorem C5_flat_name_of_octave_8:
  "buildFromName host0 (Some ''Bb8'') None
     = ([Error (InvalidNoteName ''A#8''), Usage BuildFromName], None)"
  by (simp add: buildFromName_def buildFromName_try_def getNotesInfo_table last_char_def
      parseInt_def digits_def DICT_TRANSLATIONS_def to_string_def decimal_digit)

section \<open>The frequency path\<close>

lemma closest_to_28:
  "foldl (closer (Fin 7 2)) (hd getNotesInfo) (tl getNotesInfo) = hd getNotesInfo"
  by (simp add: getNotesInfo_table closer_def number_eval cong: let_weak_cong)

lemma buildFromFrequency_in_range:
  assumes "getNotesInfo = first # rest"
    and "\<not> js_lt x (freq first)" and "\<not> js_gt x (freq (last (first # rest)))"
  shows "buildFromFrequency h (Some x) ac
           = buildFromName h (Some (noteInfo.name (foldl (closer x) first rest))) ac"
proof -
  have "buildFromFrequency_try h (Some x) ac
          = (if js_lt x (freq first) \<or> js_gt x (freq (last (first # rest)))
             then Inl (InvalidFrequency x)
             else Inr (buildFromName h (Some (noteInfo.name (foldl (closer x) first rest))) ac))"
    unfolding buildFromFrequency_try_def assms(1) by (simp add: Let_def)
  then show ?thesis using assms(2,3) by (simp add: buildFromFrequency_def)
qed

lemma getNotesInfo_hd_tl: "getNotesInfo = hd getNotesInfo # tl getNotesInfo"
  by (simp add: getNotesInfo_table)

lemma buildFromName_A0:
  "buildFromName h (Some ''A0'') ac = ([Error (InvalidOctave ''A0''), Usage BuildFromName], None)"
  by (simp add: buildFromName_def buildFromName_try_def last_char_def parseInt_def digits_def)

lemma name_hd_getNotesInfo: "noteInfo.name (hd getNotesInfo) = ''A0''"
  by (simp add: getNotesInfo_table)

text \<open>
  C4: the frequency 28 Hz lies within the table's range, 27.5 Hz being the lowest
  frequency, and its nearest entry is the first one, A0; yet \<open>buildFromFrequency(28)\<close>
  returns null, with the diagnostic of \<open>buildFromName\<close>, which rejects the octave digit 0
  of the name it is given.
\<close>

theorem C4_buildFromFrequency_28:
  "\<not> js_lt (Fin 7 2) (freq (hd getNotesInfo)) \<and>
   \<not> js_gt (Fin 7 2) (freq (last getNotesInfo)) \<and>
   buildFromFrequency h (Some (Fin 7 2)) ac = ([Error (InvalidOctave ''A0''), Usage BuildFromName], None)"
proof -
  have range: "\<not> js_lt (Fin 7 2) (freq (hd getNotesInfo))"
     "\<not> js_gt (Fin 7 2) (freq (last getNotesInfo))"
    by (simp_all add: getNotesInfo_table js_gt_def)
  have "buildFromFrequency h (Some (Fin 7 2)) ac
          = buildFromName h (Some (noteInfo.name (foldl (closer (Fin 7 2)) (hd getNotesInfo)
              (tl getNotesInfo)))) ac"
    using range by (intro buildFromFrequency_in_range getNotesInfo_hd_tl)
      (simp_all only: getNotesInfo_hd_tl [symmetric] simp_thms)
  then show ?thesis using range
    by (simp only: closest_to_28 name_hd_getNotesInfo buildFromName_A0 simp_thms)
qed

section \<open>The entries of octave 0\<close>

lemma first_twelve_names:
  assumes "j < 12"
  shows "parseInt (last_char (noteInfo.name (getNotesInfo ! j))) = Some 0"
proof -
  from assms have "j = 0 \<or> j = 1 \<or> j = 2 \<or> j = 3 \<or> j = 4 \<or> j = 5 \<or> j = 6 \<or> j = 7 \<or> j = 8
      \<or> j = 9 \<or> j = 10 \<or> j = 11"
    by arith
  then show ?thesis
    by (elim disjE)
      (simp_all add: getNotesInfo_table last_char_def parseInt_def digits_def)
qed

text \<open>
  The search of \<open>buildFromFrequency\<close>, given the frequency of one of the first twelve
  entries, ends at that entry.
\<close>

lemma closest_to_first_twelve:
  "foldl (closer (freq (getNotesInfo ! 0))) (hd getNotesInfo) (tl getNotesInfo) = getNotesInfo ! 0"
  "foldl (closer (freq (getNotesInfo ! 1))) (hd getNotesInfo) (tl getNotesInfo) = getNotesInfo ! 1"
  "foldl (closer (freq (getNotesInfo ! 2))) (hd getNotesInfo) (tl getNotesInfo) = getNotesInfo ! 2"
  "foldl (closer (freq (getNotesInfo ! 3))) (hd getNotesInfo) (tl getNotesInfo) = getNotesInfo ! 3"
  "foldl (closer (freq (getNotesInfo ! 4))) (hd getNotesInfo) (tl getNotesInfo) = getNotesInfo ! 4"
  "foldl (closer (freq (getNotesInfo ! 5))) (hd getNotesInfo) (tl getNotesInfo) = getNotesInfo ! 5"
  "foldl (closer (freq (getNotesInfo ! 6))) (hd getNotesInfo) (tl getNotesInfo) = getNotesInfo ! 6"
  "foldl (closer (freq (getNotesInfo ! 7))) (hd getNotesInfo) (tl getNotesInfo) = getNotesInfo ! 7"
  "foldl (closer (freq (getNotesInfo ! 8))) (hd getNotesInfo) (tl getNotesInfo) = getNotesInfo ! 8"
  "foldl (closer (freq (getNotesInfo ! 9))) (hd getNotesInfo) (tl getNotesInfo) = getNotesInfo ! 9"
  "foldl (closer (freq (getNotesInfo ! 10))) (hd getNotesInfo) (tl getNotesInfo) = getNotesInfo ! 10"
  "foldl (closer (freq (getNotesInfo ! 11))) (hd getNotesInfo) (tl getNotesInfo) = getNotesInfo ! 11"
  by (simp_all add: getNotesInfo_table closer_def number_eval cong: let_weak_cong)

lemma first_twelve_in_range:
  assumes "j < 12"
  shows "\<not> js_lt (freq (getNotesInfo ! j)) (freq (hd getNotesInfo))"
    and "\<not> js_gt (freq (getNotesInfo ! j)) (freq (last getNotesInfo))"
    and "foldl (closer (freq (getNotesInfo ! j))) (hd getNotesInfo) (tl getNotesInfo)
           = getNotesInfo ! j"
proof -
  from assms have j: "j = 0 \<or> j = 1 \<or> j = 2 \<or> j = 3 \<or> j = 4 \<or> j = 5 \<or> j = 6 \<or> j = 7 \<or> j = 8
      \<or> j = 9 \<or> j = 10 \<or> j = 11"
    by arith
  from j show "\<not> js_lt (freq (getNotesInfo ! j)) (freq (hd getNotesInfo))"
    by (elim disjE) (simp_all add: getNotesInfo_table)
  from j show "\<not> js_gt (freq (getNotesInfo ! j)) (freq (last getNotesInfo))"
    by (elim disjE) (simp_all add: getNotesInfo_table js_gt_def)
  from j show "foldl (closer (freq (getNotesInfo ! j))) (hd getNotesInfo) (tl getNotesInfo)
           = getNotesInfo ! j"
    by (elim disjE) (simp_all only: closest_to_first_twelve)
qed

text \<open>
  C10: for every key number from 1 to 12 \<open>buildFromKeyNb\<close> returns a player, with the
  name of that table entry, whereas \<open>buildFromName\<close> on that name returns null: the name
  ends in the octave digit 0, which the name path rejects. The frequency lookup does not
  reach these entries either: \<open>buildFromFrequency\<close> on the very frequency of the entry
  finds the entry, hands its name to \<open>buildFromName\<close>, and returns null with that
  function's diagnostic.
\<close>

theorem C10_entries_of_octave_0:
  assumes "1 \<le> k" and "k \<le> 12"
  shows "(\<exists>p. snd (buildFromKeyNb h (Some (number_of_nat k)) ac) = Some p \<and>
              pianoKeyNb p = number_of_nat k \<and>
              name p = noteInfo.name (getNotesInfo ! (k - 1))) \<and>
         parseInt (last_char (noteInfo.name (getNotesInfo ! (k - 1)))) = Some 0 \<and>
         buildFromName h (Some (noteInfo.name (getNotesInfo ! (k - 1)))) ac
           = ([Error (InvalidOctave (noteInfo.name (getNotesInfo ! (k - 1)))),
               Usage BuildFromName], None) \<and>
         buildFromFrequency h (Some (freq (getNotesInfo ! (k - 1)))) ac
           = ([Error (InvalidOctave (noteInfo.name (getNotesInfo ! (k - 1)))),
               Usage BuildFromName], None)"
proof -
  from assms have k: "1 \<le> k" "k \<le> 88" "k - 1 < 88" "1 + (k - 1) = k" "k - 1 < 12" by simp_all
  have "buildFromKeyNb h (Some (number_of_nat k)) ac
          = (fst (new_notePlayer h (getNotesInfo ! (k - 1)) ac),
             Some (snd (new_notePlayer h (getNotesInfo ! (k - 1)) ac)))"
    using k(1,2) by (rule buildFromKeyNb_found) (rule value_of_number_of_nat)
  moreover have "keynb (getNotesInfo ! (k - 1)) = number_of_nat k"
    using keynb_nth_getNotesInfo [OF k(3)] by (simp only: k(4))
  ultimately have key: "\<exists>p. snd (buildFromKeyNb h (Some (number_of_nat k)) ac) = Some p \<and>
              pianoKeyNb p = number_of_nat k \<and>
              name p = noteInfo.name (getNotesInfo ! (k - 1))"
    by (simp add: new_notePlayer_fields)
  have oct: "parseInt (last_char (noteInfo.name (getNotesInfo ! (k - 1)))) = Some 0"
    using k(5) by (rule first_twelve_names)
  then have byname: "buildFromName h (Some (noteInfo.name (getNotesInfo ! (k - 1)))) ac
           = ([Error (InvalidOctave (noteInfo.name (getNotesInfo ! (k - 1)))),
               Usage BuildFromName], None)"
    by (simp add: buildFromName_def buildFromName_try_def)
  have "buildFromFrequency h (Some (freq (getNotesInfo ! (k - 1)))) ac
          = buildFromName h (Some (noteInfo.name (foldl (closer (freq (getNotesInfo ! (k - 1))))
              (hd getNotesInfo) (tl getNotesInfo)))) ac"
    using first_twelve_in_range(1,2) [OF k(5)]
    by (intro buildFromFrequency_in_range getNotesInfo_hd_tl)
      (simp_all only: getNotesInfo_hd_tl [symmetric] simp_thms)
  then have "buildFromFrequency h (Some (freq (getNotesInfo ! (k - 1)))) ac
           = ([Error (InvalidOctave (noteInfo.name (getNotesInfo ! (k - 1)))),
               Usage BuildFromName], None)"
    by (simp only: first_twelve_in_range(3) [OF k(5)] byname)
  with key oct byname show ?thesis by blast
qed

theorem C10_witness:
  "(\<exists>p. snd (buildFromKeyNb host0 (Some (Fin 1 0)) None) = Some p \<and> name p = ''A0'') \<and>
   buildFromName host0 (Some ''A0'') None
     = ([Error (InvalidOctave ''A0''), Usage BuildFromName], None) \<and>
   buildFromFrequency host0 (Some (Fin 55 (- 1))) None
     = ([Error (InvalidOctave ''A0''), Usage BuildFromName], None)"
proof -
  have "number_of_nat 1 = Fin 1 0"
    by (simp add: number_of_nat_def normalise.simps)
  moreover have "noteInfo.name (getNotesInfo ! (1 - 1)) = ''A0''"
    "freq (getNotesInfo ! (1 - 1)) = Fin 55 (- 1)"
    by (simp_all add: getNotesInfo_table)
  ultimately show ?thesis
    using C10_entries_of_octave_0 [of 1 host0 None] by simp blast
qed

section \<open>Properties of the setters\<close>

text \<open>
  C8: \<open>setDestinationNode\<close> called with an undefined argument does not return: it
  throws a \<open>TypeError\<close>, every field of the player being as it was. The other setters
  return: \<open>setDuration\<close>, \<open>setVolume\<close>, \<open>setAttack\<close>, \<open>setRelease\<close> and
  \<open>setAudioContext\<close> called with an undefined argument leave every field as it was, and
  \<open>setVerbose\<close> sets \<open>verbose\<close> to true for an undefined argument and for \<open>true\<close>,
  to false for every other value, and changes no other field.
\<close>

theorem C8_setDestinationNode_throws:
  "setDestinationNode None p = (Some TypeError, p) \<and>
   setDuration None p = p \<and> setVolume None p = p \<and> setAttack None p = p \<and>
   setRelease None p = p \<and> setAudioContext None p = p \<and>
   setVerbose v p = p\<lparr>verbose := (v = JsUndefined \<or> v = JsBoolean True)\<rparr>"
  by (simp add: setDestinationNode_def setDuration_def setVolume_def setAttack_def
      setRelease_def setAudioContext_def setVerbose_def)

lemma setVerbose_examples:
  "verbose (setVerbose JsUndefined p)" "verbose (setVerbose (JsBoolean True) p)"
  "\<not> verbose (setVerbose (JsBoolean False) p)" "\<not> verbose (setVerbose JsNull p)"
  "\<not> verbose (setVerbose (JsNumber (Fin 1 0)) p)" "\<not> verbose (setVerbose (JsString ''true'') p)"
  "\<not> verbose (setVerbose JsObject p)"
  by (simp_all add: setVerbose_def)

lemma setDestinationNode_defined:
  "setDestinationNode (Some d) p = (None, p\<lparr>destinationNode := Some d\<rparr>)"
  by (simp add: setDestinationNode_def)

lemma Ints_of_int_divide_iff:
  assumes "d \<noteq> 0"
  shows "(of_int m / of_int d :: real) \<in> \<int> \<longleftrightarrow> d dvd m"
proof
  assume "(of_int m / of_int d :: real) \<in> \<int>"
  then obtain z where "(of_int m / of_int d :: real) = of_int z" by (auto elim: Ints_cases)
  then have "(of_int m :: real) = of_int (z * d)" using assms by (simp add: field_simps)
  then have "m = z * d" by (simp only: of_int_eq_iff)
  then show "d dvd m" by simp
next
  assume "d dvd m"
  then obtain q where "m = d * q" by (auto elim: dvdE)
  then show "(of_int m / of_int d :: real) \<in> \<int>" using assms by simp
qed

lemma js_rem_1_zero_iff:
  "js_eq (js_rem_1 (Fin m e)) (Fin 0 0) \<longleftrightarrow> (of_int m * 2 powi e :: real) \<in> \<int>"
proof (cases "0 \<le> e")
  case True
  then have "(of_int m * 2 powi e :: real) = of_int (m * 2 ^ nat e)"
    by (simp add: power_int_def)
  then have "(of_int m * 2 powi e :: real) \<in> \<int>" by (simp only: Ints_of_int)
  then show ?thesis using True by simp
next
  case False
  define k where "k = nat (- e)"
  define r where "r = sgn m * (\<bar>m\<bar> mod 2 ^ k)"
  obtain m' e' where n: "normalise r e = Fin m' e'" and z: "m' = 0 \<longleftrightarrow> r = 0"
    using normalise_value [of r e] by blast
  have "js_eq (js_rem_1 (Fin m e)) (Fin 0 0) \<longleftrightarrow> js_eq (Fin m' e') (Fin 0 0)"
    using False n by (simp add: k_def r_def)
  also have "\<dots> \<longleftrightarrow> m' = 0"
    by (simp add: js_eq_Fin_iff del: js_eq.simps)
  also have "\<dots> \<longleftrightarrow> r = 0" by (rule z)
  also have "\<dots> \<longleftrightarrow> 2 ^ k dvd m"
    by (auto simp add: r_def sgn_if mod_eq_0_iff_dvd)
  also have "\<dots> \<longleftrightarrow> (of_int m / of_int (2 ^ k) :: real) \<in> \<int>"
    by (rule Ints_of_int_divide_iff [symmetric]) simp
  also have "(of_int m / of_int (2 ^ k) :: real) = of_int m * 2 powi e"
    using False by (simp add: k_def power_int_def field_simps)
  finally show ?thesis .
qed

text \<open>
  C9: \<open>setAttack(n)\<close> and \<open>setRelease(n)\<close> with a finite number \<open>n\<close> leave the player
  as it was when \<open>n\<close> is a whole number, zero and the negative ones included, and set
  the field to \<open>n\<close> when \<open>n\<close> has a fractional part.
\<close>

theorem C9_whole_numbers_ignored:
  "setAttack (Some (Fin m e)) p
     = (if (of_int m * 2 powi e :: real) \<in> \<int> then p else p\<lparr>attack := Fin m e\<rparr>) \<and>
   setRelease (Some (Fin m e)) p
     = (if (of_int m * 2 powi e :: real) \<in> \<int> then p else p\<lparr>release := Fin m e\<rparr>)"
  by (simp add: setAttack_def setRelease_def js_rem_1_zero_iff del: js_rem_1.simps js_eq.simps)

theorem C9_witness:
  "(case snd (buildFromKeyNb host0 (Some (Fin 49 0)) None) of
      None \<Rightarrow> False
    | Some p \<Rightarrow> setAttack (Some (Fin 2 0)) p = p \<and>
               setAttack (Some (Fin 1 (- 1))) p = p\<lparr>attack := Fin 1 (- 1)\<rparr> \<and>
               setRelease (Some (Fin (- 3) 0)) p = p \<and>
               setRelease (Some (Fin 1 (- 2))) p = p\<lparr>release := Fin 1 (- 2)\<rparr>)"
proof -
  obtain p where p: "snd (buildFromKeyNb host0 (Some (Fin 49 0)) None) = Some p"
    by (simp add: buildFromKeyNb_def buildFromKeyNb_try_def getNotesInfo_table)
  have whole: "(of_int 2 * 2 powi 0 :: real) \<in> \<int>" "(of_int (- 3) * 2 powi 0 :: real) \<in> \<int>"
    by simp_all
  have "(of_int 1 / of_int 2 :: real) \<notin> \<int>" "(of_int 1 / of_int 4 :: real) \<notin> \<int>"
    by (simp_all only: Ints_of_int_divide_iff) simp_all
  then have frac: "(of_int 1 * 2 powi (- 1) :: real) \<notin> \<int>"
    "(of_int 1 * 2 powi (- 2) :: real) \<notin> \<int>"
    by (simp_all add: power_int_minus)
  show ?thesis
    using C9_whole_numbers_ignored [of 2 0 p] C9_whole_numbers_ignored [of 1 "- 1" p]
      C9_whole_numbers_ignored [of "- 3" 0 p] C9_whole_numbers_ignored [of 1 "- 2" p]
    by (simp only: p option.case whole frac if_True if_False simp_thms)
qed

end
